theory Spec2Isabelle
  imports Complex_Main
begin

section \<open>Configuration (config.py)\<close>

text \<open>
  Python's unbounded integers are \<open>int\<close>; its floats are read as exact reals, so rounding
  is outside the model. The module-level singletons \<open>config\<close>, \<open>extractor\<close>, \<open>strategy\<close>
  and \<open>llm\<close> are passed to each function as arguments.
\<close>

record ScamDetectionConfig =
  confidence_threshold :: real
  keyword_weight :: real
  pattern_weight :: real
  llm_weight :: real
  enable_whitelist :: bool

record EngagementLimits =
  max_messages :: int
  max_duration_minutes :: int
  min_entities_for_stop :: int
  max_repetitions :: int
  suspicion_threshold :: real

record LLMConfig =
  provider :: string
  enable_fallback :: bool

record EntityExtractionConfig =
  enable_normalization :: bool
  enable_url_expansion :: bool

record Config =
  scam_detection :: ScamDetectionConfig
  engagement :: EngagementLimits
  llm :: LLMConfig
  entity_extraction :: EntityExtractionConfig

text \<open>The values \<open>Config.__init__\<close> takes when no environment variable is set.\<close>

definition default_config :: Config where
  "default_config =
     \<lparr> scam_detection =
         \<lparr> confidence_threshold = 0.85, keyword_weight = 0.3, pattern_weight = 0.3,
           llm_weight = 0.4, enable_whitelist = True \<rparr>,
       engagement =
         \<lparr> max_messages = 15, max_duration_minutes = 30, min_entities_for_stop = 3,
           max_repetitions = 3, suspicion_threshold = 0.7 \<rparr>,
       llm = \<lparr> provider = ''openai'', enable_fallback = True \<rparr>,
       entity_extraction = \<lparr> enable_normalization = True, enable_url_expansion = True \<rparr> \<rparr>"

section \<open>Strings (Python \<open>str\<close> methods)\<close>

text \<open>
  A Python string is a \<open>string\<close>: the bytes of its UTF-8 text. Case folding and the
  character classes below are those of the ASCII range, which is where every keyword and
  every pattern of the source lives; on text outside ASCII Python folds and classifies
  more characters than the model does.
\<close>

definition char_code :: "char \<Rightarrow> nat" where
  "char_code c = of_char c"

definition lower_char :: "char \<Rightarrow> char" where
  "lower_char c =
     (if 65 \<le> char_code c \<and> char_code c \<le> 90 then char_of (char_code c + 32) else c)"

definition upper_char :: "char \<Rightarrow> char" where
  "upper_char c =
     (if 97 \<le> char_code c \<and> char_code c \<le> 122 then char_of (char_code c - 32) else c)"

definition lower :: "string \<Rightarrow> string" where
  "lower s = map lower_char s"

definition is_digit :: "char \<Rightarrow> bool" where
  "is_digit c = (48 \<le> char_code c \<and> char_code c \<le> 57)"

text \<open>Whitespace as \<open>str.strip\<close>, \<open>str.split\<close> and the class \<^verbatim>\<open>\s\<close> see it.\<close>

definition is_space :: "char \<Rightarrow> bool" where
  "is_space c = (char_code c \<in> set [9, 10, 11, 12, 13, 28, 29, 30, 31, 32])"

definition is_word_char :: "char \<Rightarrow> bool" where
  "is_word_char c =
     (is_digit c \<or> (65 \<le> char_code c \<and> char_code c \<le> 90)
      \<or> (97 \<le> char_code c \<and> char_code c \<le> 122) \<or> char_code c = 95)"

definition strip :: "string \<Rightarrow> string" where
  "strip s = rev (dropWhile is_space (rev (dropWhile is_space s)))"

fun split_ws :: "string \<Rightarrow> string \<Rightarrow> string list" where
  "split_ws cur [] = (if cur = [] then [] else [cur])"
| "split_ws cur (c # cs) =
     (if is_space c then (if cur = [] then split_ws [] cs else cur # split_ws [] cs)
      else split_ws (cur @ [c]) cs)"

definition split :: "string \<Rightarrow> string list" where
  "split s = split_ws [] s"

definition startswith :: "string \<Rightarrow> string \<Rightarrow> bool" where
  "startswith s p = (take (length p) s = p)"

definition endswith :: "string \<Rightarrow> string \<Rightarrow> bool" where
  "endswith s p = (length p \<le> length s \<and> drop (length s - length p) s = p)"

text \<open>\<open>contains sub s\<close> is Python's \<open>sub in s\<close>.\<close>

fun contains :: "string \<Rightarrow> string \<Rightarrow> bool" where
  "contains sub [] = (sub = [])"
| "contains sub (c # cs) = (startswith (c # cs) sub \<or> contains sub cs)"

text \<open>
  \<open>replace_from old new s skip\<close> is \<open>s.replace(old, new)\<close> for a non-empty \<open>old\<close>:
  occurrences are replaced from the left and do not overlap; \<open>skip\<close> counts the
  characters of an occurrence still to be dropped.
\<close>

fun replace_from :: "string \<Rightarrow> string \<Rightarrow> string \<Rightarrow> nat \<Rightarrow> string" where
  "replace_from old new [] skip = []"
| "replace_from old new (c # cs) skip =
     (if skip > 0 then replace_from old new cs (skip - 1)
      else if startswith (c # cs) old then new @ replace_from old new cs (length old - 1)
      else c # replace_from old new cs 0)"

definition replace :: "string \<Rightarrow> string \<Rightarrow> string \<Rightarrow> string" where
  "replace s old new = replace_from old new s 0"

fun join :: "string \<Rightarrow> string list \<Rightarrow> string" where
  "join sep [] = []"
| "join sep [x] = x"
| "join sep (x # y # ys) = x @ sep @ join sep (y # ys)"

fun str_of_nat :: "nat \<Rightarrow> string" where
  "str_of_nat n =
     (if n < 10 then [char_of (48 + n)] else str_of_nat (n div 10) @ [char_of (48 + n mod 10)])"

section \<open>Regular expressions (the part of Python's \<open>re\<close> the source uses)\<close>

text \<open>
  The module \<open>re\<close> is a backtracking matcher. \<open>step ic r p\<close> lists, in the order the
  matcher tries them, the positions at which a match of \<open>r\<close> started at \<open>p\<close> can end; the
  first one is the match Python reports. A position is the previous character, which
  \<^verbatim>\<open>\b\<close> needs, and the rest of the input. \<open>ic\<close> is the flag \<open>re.IGNORECASE\<close>.
  Repetitions are greedy: one more round is tried before stopping. Every repeated
  sub-pattern of the source consumes at least one character, so an unbounded repetition
  makes at most as many rounds as characters are left.
\<close>

datatype item = Chr char | Rng char char | Digit | Space

fun item_has :: "item \<Rightarrow> char \<Rightarrow> bool" where
  "item_has (Chr x) c = (c = x)"
| "item_has (Rng a b) c = (char_code a \<le> char_code c \<and> char_code c \<le> char_code b)"
| "item_has Digit c = is_digit c"
| "item_has Space c = is_space c"

datatype rx =
    Lit char
  | Set "item list"
  | NotSet "item list"
  | Eps
  | Seq rx rx
  | Alt rx rx
  | Rep nat "nat option" rx
  | WordB
  | EndS

type_synonym pos = "char option \<times> string"

definition class_has :: "bool \<Rightarrow> item list \<Rightarrow> char \<Rightarrow> bool" where
  "class_has ic items c =
     (\<exists>it \<in> set items.
        item_has it c \<or> (ic \<and> (item_has it (lower_char c) \<or> item_has it (upper_char c))))"

definition eat :: "(char \<Rightarrow> bool) \<Rightarrow> pos \<Rightarrow> pos list" where
  "eat P p = (case snd p of [] \<Rightarrow> [] | c # cs \<Rightarrow> if P c then [(Some c, cs)] else [])"

primrec iter :: "(pos \<Rightarrow> pos list) \<Rightarrow> nat \<Rightarrow> nat \<Rightarrow> pos \<Rightarrow> pos list" where
  "iter f 0 lo p = (if lo = 0 then [p] else [])"
| "iter f (Suc n) lo p =
     concat (map (iter f n (lo - 1)) (f p)) @ (if lo = 0 then [p] else [])"

definition is_word_at :: "char option \<Rightarrow> bool" where
  "is_word_at x = (case x of None \<Rightarrow> False | Some c \<Rightarrow> is_word_char c)"

primrec step :: "bool \<Rightarrow> rx \<Rightarrow> pos \<Rightarrow> pos list" where
  "step ic (Lit x) p = eat (\<lambda>c. if ic then lower_char c = lower_char x else c = x) p"
| "step ic (Set items) p = eat (class_has ic items) p"
| "step ic (NotSet items) p = eat (\<lambda>c. \<not> class_has ic items c) p"
| "step ic Eps p = [p]"
| "step ic (Seq a b) p = concat (map (step ic b) (step ic a p))"
| "step ic (Alt a b) p = step ic a p @ step ic b p"
| "step ic (Rep lo hi a) p =
     iter (step ic a) (case hi of None \<Rightarrow> length (snd p) | Some h \<Rightarrow> h) lo p"
| "step ic WordB p =
     (if is_word_at (fst p) \<noteq> is_word_at (case snd p of [] \<Rightarrow> None | c # _ \<Rightarrow> Some c)
      then [p] else [])"
| "step ic EndS p = (if snd p = [] \<or> snd p = [CHR 0x0A] then [p] else [])"

definition match_len :: "bool \<Rightarrow> rx \<Rightarrow> pos \<Rightarrow> nat option" where
  "match_len ic r p =
     (case step ic r p of [] \<Rightarrow> None | q # _ \<Rightarrow> Some (length (snd p) - length (snd q)))"

text \<open>
  \<open>re.finditer\<close>: the matches from left to right, none overlapping, each with its start
  index. \<open>skip\<close> counts the characters still inside the previous match.
\<close>

fun finditer_from ::
  "bool \<Rightarrow> rx \<Rightarrow> char option \<Rightarrow> string \<Rightarrow> nat \<Rightarrow> nat \<Rightarrow> (nat \<times> string) list" where
  "finditer_from ic r prev [] i skip =
     (if skip = 0 \<and> match_len ic r (prev, []) \<noteq> None then [(i, [])] else [])"
| "finditer_from ic r prev (c # cs) i skip =
     (if skip > 0 then finditer_from ic r (Some c) cs (i + 1) (skip - 1)
      else case match_len ic r (prev, c # cs) of
             None \<Rightarrow> finditer_from ic r (Some c) cs (i + 1) 0
           | Some n \<Rightarrow> (i, take n (c # cs)) # finditer_from ic r (Some c) cs (i + 1) (n - 1))"

definition finditer :: "bool \<Rightarrow> rx \<Rightarrow> string \<Rightarrow> (nat \<times> string) list" where
  "finditer ic r s = finditer_from ic r None s 0 0"

text \<open>\<open>re.findall\<close> for a pattern without capturing groups: the matched texts.\<close>

definition findall :: "bool \<Rightarrow> rx \<Rightarrow> string \<Rightarrow> string list" where
  "findall ic r s = map snd (finditer ic r s)"

text \<open>\<open>re.search\<close>, read as a truth value: is there a match anywhere?\<close>

fun search_from :: "bool \<Rightarrow> rx \<Rightarrow> char option \<Rightarrow> string \<Rightarrow> bool" where
  "search_from ic r prev [] = (step ic r (prev, []) \<noteq> [])"
| "search_from ic r prev (c # cs) =
     (step ic r (prev, c # cs) \<noteq> [] \<or> search_from ic r (Some c) cs)"

definition re_search :: "bool \<Rightarrow> rx \<Rightarrow> string \<Rightarrow> bool" where
  "re_search ic r s = search_from ic r None s"

text \<open>Shorthands for writing the patterns of the source.\<close>

fun seqs :: "rx list \<Rightarrow> rx" where
  "seqs [] = Eps"
| "seqs [r] = r"
| "seqs (r # rs) = Seq r (seqs rs)"

fun alts :: "rx list \<Rightarrow> rx" where
  "alts [] = NotSet [Rng (CHR 0x00) (CHR 0xFF)]"
| "alts [r] = r"
| "alts (r # rs) = Alt r (alts rs)"

definition lits :: "string \<Rightarrow> rx" where
  "lits s = seqs (map Lit s)"

definition opt :: "rx \<Rightarrow> rx" where
  "opt r = Rep 0 (Some 1) r"

definition star :: "rx \<Rightarrow> rx" where
  "star r = Rep 0 None r"

definition plus1 :: "rx \<Rightarrow> rx" where
  "plus1 r = Rep 1 None r"

definition rep :: "nat \<Rightarrow> nat \<Rightarrow> rx \<Rightarrow> rx" where
  "rep m n r = Rep m (Some n) r"

section \<open>Extracted entities (entity_extractor.py)\<close>

datatype EntityType =
  BANK_ACCOUNT | UPI_ID | PHONE_NUMBER | URL | EMAIL | CRYPTO_ADDRESS | NAME

datatype ConfidenceLevel = HIGH | MEDIUM | LOW | NEEDS_VERIFICATION

text \<open>The fields \<open>value\<close> and \<open>context\<close> of the source are \<open>raw_value\<close> and \<open>context_text\<close> here.\<close>

record ExtractedEntity =
  entity_type :: EntityType
  raw_value :: string
  normalized_value :: string
  confidence :: ConfidenceLevel
  context_text :: string
  source_message :: string

text \<open>The extractor's only field, \<open>extracted_entities\<close>, is the running deduplicated list.\<close>

type_synonym EntityExtractor = "ExtractedEntity list"

definition get_high_value_entities :: "EntityExtractor \<Rightarrow> ExtractedEntity list" where
  "get_high_value_entities extracted_entities =
     filter (\<lambda>e. confidence e \<in> set [HIGH, MEDIUM]) extracted_entities"

definition get_entity_count :: "EntityExtractor \<Rightarrow> int" where
  "get_entity_count extracted_entities = int (length (get_high_value_entities extracted_entities))"

subsection \<open>Normalisation (utils.py, \<open>DataNormalizer\<close>)\<close>

text \<open>
  \<open>normalize_phone\<close> is \<^verbatim>\<open>re.sub(r'[^\d+]', '', phone)\<close> and \<open>normalize_bank_account\<close> is
  \<^verbatim>\<open>re.sub(r'[\s\-]', '', account)\<close>: a substitution of single characters by nothing is
  a filter.
\<close>

definition normalize_phone :: "string \<Rightarrow> string" where
  "normalize_phone phone = filter (\<lambda>c. is_digit c \<or> c = CHR ''+'') phone"

definition normalize_bank_account :: "string \<Rightarrow> string" where
  "normalize_bank_account account = filter (\<lambda>c. \<not> (is_space c \<or> c = CHR ''-'')) account"

definition normalize_upi :: "string \<Rightarrow> string" where
  "normalize_upi upi =
     (let upi = replace upi ''(at)'' ''@'';
          upi = replace upi ''[at]'' ''@'';
          upi = replace upi '' at '' ''@''
      in strip (lower upi))"

definition normalize_url :: "string \<Rightarrow> string" where
  "normalize_url url =
     (let url = strip url
      in if \<not> (startswith url ''http://'' \<or> startswith url ''https://'')
         then ''https://'' @ url else url)"

definition test_keywords :: "string list" where
  "test_keywords = [''test'', ''dummy'', ''fake'', ''example'', ''000000'', ''999999'']"

text \<open>
  \<open>is_likely_fake\<close> takes the entity type as the string \<open>entity_type.value\<close>. A digit
  string read by \<open>int\<close> is its digit's value. A parameter \<open>entity_type\<close> of the source is
  \<open>etype\<close> here, the former being the name of the record field.
\<close>

definition digit_value :: "char \<Rightarrow> int" where
  "digit_value c = int (char_code c) - 48"

definition is_likely_fake :: "string \<Rightarrow> string \<Rightarrow> bool" where
  "is_likely_fake value etype =
     (if etype \<in> set [''bank_account'', ''phone'']
         \<and> (let digits = filter is_digit value
             in (length digits \<ge> 6
                 \<and> (\<forall>i \<in> set [1 ..< min 6 (length digits)].
                       digit_value (digits ! i) = digit_value (digits ! (i - 1)) + 1))
                \<or> length (remdups digits) \<le> 2)
      then True
      else let value_lower = lower value
           in \<exists>keyword \<in> set test_keywords. contains keyword value_lower)"

subsection \<open>The extractor (\<open>EntityExtractor\<close>)\<close>

definition EntityType_value :: "EntityType \<Rightarrow> string" where
  "EntityType_value t =
     (case t of BANK_ACCOUNT \<Rightarrow> ''bank_account'' | UPI_ID \<Rightarrow> ''upi_id''
      | PHONE_NUMBER \<Rightarrow> ''phone_number'' | URL \<Rightarrow> ''url'' | EMAIL \<Rightarrow> ''email''
      | CRYPTO_ADDRESS \<Rightarrow> ''crypto_address'' | NAME \<Rightarrow> ''name'')"

text \<open>
  The table \<open>PATTERNS\<close>, in the order of the dictionary. The source patterns are
  \<^item> bank account: \<^verbatim>\<open>\b(\d[\s\-]*){9,18}\b\<close> and
    \<^verbatim>\<open>account\s*(?:number|no\.?|#)?\s*:?\s*(\d[\s\-]*){9,18}\<close>;
  \<^item> UPI: \<^verbatim>\<open>\b([a-zA-Z0-9._-]+)@([a-zA-Z0-9.-]+)\b\<close> and
    \<^verbatim>\<open>\b([a-zA-Z0-9._-]+)\s*(?:\(at\)|\[at\]|at)\s*([a-zA-Z0-9.-]+)\b\<close>;
  \<^item> phone: \<^verbatim>\<open>\+?\d{1,3}[-.\s]?\(?\d{3}\)?[-.\s]?\d{3}[-.\s]?\d{4}\<close> and
    \<^verbatim>\<open>\b(\d[\s\-]*){10,15}\b\<close>;
  \<^item> URL: \<^verbatim>\<open>https?://[^\s]+\<close>, \<^verbatim>\<open>www\.[^\s]+\<close>, \<^verbatim>\<open>bit\.ly/[^\s]+\<close>,
    \<^verbatim>\<open>tinyurl\.com/[^\s]+\<close>;
  \<^item> email: \<^verbatim>\<open>\b[a-zA-Z0-9._%+-]+@[a-zA-Z0-9.-]+\.[a-zA-Z]{2,}\b\<close>;
  \<^item> crypto address: \<^verbatim>\<open>\b[13][a-km-zA-HJ-NP-Z1-9]{25,34}\b\<close> and
    \<^verbatim>\<open>\b0x[a-fA-F0-9]{40}\b\<close>.
\<close>

definition digit_group :: rx where
  "digit_group = Seq (Set [Digit]) (star (Set [Space, Chr CHR ''-'']))"

definition separator :: rx where
  "separator = opt (Set [Chr CHR ''-'', Chr CHR ''.'', Space])"

definition upi_name :: rx where
  "upi_name =
     plus1 (Set [Rng CHR ''a'' CHR ''z'', Rng CHR ''A'' CHR ''Z'', Rng CHR ''0'' CHR ''9'',
                 Chr CHR ''.'', Chr CHR ''_'', Chr CHR ''-''])"

definition host_name :: rx where
  "host_name =
     plus1 (Set [Rng CHR ''a'' CHR ''z'', Rng CHR ''A'' CHR ''Z'', Rng CHR ''0'' CHR ''9'',
                 Chr CHR ''.'', Chr CHR ''-''])"

definition non_space :: rx where
  "non_space = plus1 (NotSet [Space])"

definition PATTERNS :: "(EntityType \<times> rx list) list" where
  "PATTERNS =
     [ (BANK_ACCOUNT,
        [ seqs [WordB, rep 9 18 digit_group, WordB],
          seqs [lits ''account'', star (Set [Space]),
                opt (alts [lits ''number'', Seq (lits ''no'') (opt (Lit CHR ''.'')),
                           Lit CHR ''#'']),
                star (Set [Space]), opt (Lit CHR '':''), star (Set [Space]),
                rep 9 18 digit_group] ]),
       (UPI_ID,
        [ seqs [WordB, upi_name, Lit CHR ''@'', host_name, WordB],
          seqs [WordB, upi_name, star (Set [Space]),
                alts [lits ''(at)'', lits ''[at]'', lits ''at''],
                star (Set [Space]), host_name, WordB] ]),
       (PHONE_NUMBER,
        [ seqs [opt (Lit CHR ''+''), rep 1 3 (Set [Digit]), separator,
                opt (Lit CHR ''(''), rep 3 3 (Set [Digit]), opt (Lit CHR '')''), separator,
                rep 3 3 (Set [Digit]), separator, rep 4 4 (Set [Digit])],
          seqs [WordB, rep 10 15 digit_group, WordB] ]),
       (URL,
        [ seqs [lits ''http'', opt (Lit CHR ''s''), lits ''://'', non_space],
          seqs [lits ''www.'', non_space],
          seqs [lits ''bit.ly/'', non_space],
          seqs [lits ''tinyurl.com/'', non_space] ]),
       (EMAIL,
        [ seqs [WordB,
                plus1 (Set [Rng CHR ''a'' CHR ''z'', Rng CHR ''A'' CHR ''Z'',
                            Rng CHR ''0'' CHR ''9'', Chr CHR ''.'', Chr CHR ''_'',
                            Chr CHR ''%'', Chr CHR ''+'', Chr CHR ''-'']),
                Lit CHR ''@'', host_name, Lit CHR ''.'',
                Rep 2 None (Set [Rng CHR ''a'' CHR ''z'', Rng CHR ''A'' CHR ''Z'']),
                WordB] ]),
       (CRYPTO_ADDRESS,
        [ seqs [WordB, Set [Chr CHR ''1'', Chr CHR ''3''],
                rep 25 34 (Set [Rng CHR ''a'' CHR ''k'', Rng CHR ''m'' CHR ''z'',
                                Rng CHR ''A'' CHR ''H'', Rng CHR ''J'' CHR ''N'',
                                Rng CHR ''P'' CHR ''Z'', Rng CHR ''1'' CHR ''9'']),
                WordB],
          seqs [WordB, lits ''0x'',
                rep 40 40 (Set [Rng CHR ''a'' CHR ''f'', Rng CHR ''A'' CHR ''F'',
                                Rng CHR ''0'' CHR ''9'']),
                WordB] ]) ]"

text \<open>
  What lies outside the process: \<open>head_request url\<close> is the final URL that
  \<open>requests.head(url, allow_redirects=True, timeout=3)\<close> reports, or \<open>None\<close> when the
  request raises.
\<close>

record Network =
  head_request :: "string \<Rightarrow> string option"

definition expand_url :: "Network \<Rightarrow> string \<Rightarrow> string" where
  "expand_url net url = (case head_request net url of Some final \<Rightarrow> final | None \<Rightarrow> url)"

definition normalize :: "Config \<Rightarrow> Network \<Rightarrow> string \<Rightarrow> EntityType \<Rightarrow> string" where
  "normalize config net value etype =
     (if \<not> enable_normalization (entity_extraction config) then value
      else if etype = BANK_ACCOUNT then normalize_bank_account value
      else if etype = UPI_ID then normalize_upi value
      else if etype = PHONE_NUMBER then normalize_phone value
      else if etype = URL then
        (let normalized = normalize_url value
         in if enable_url_expansion (entity_extraction config)
            then expand_url net normalized else normalized)
      else strip value)"

text \<open>
  The patterns of \<open>high_confidence_patterns\<close>:
  \<^verbatim>\<open>(?:my|our)\s+(?:account|upi|number|phone)\<close>, \<^verbatim>\<open>(?:send|transfer|pay)\s+(?:to|at)\<close>,
  \<^verbatim>\<open>(?:use|enter)\s+(?:this|the)\<close>.
\<close>

definition high_confidence_patterns :: "rx list" where
  "high_confidence_patterns =
     [ seqs [alts [lits ''my'', lits ''our''], plus1 (Set [Space]),
             alts [lits ''account'', lits ''upi'', lits ''number'', lits ''phone'']],
       seqs [alts [lits ''send'', lits ''transfer'', lits ''pay''], plus1 (Set [Space]),
             alts [lits ''to'', lits ''at'']],
       seqs [alts [lits ''use'', lits ''enter''], plus1 (Set [Space]),
             alts [lits ''this'', lits ''the'']] ]"

definition assess_confidence ::
  "string \<Rightarrow> EntityType \<Rightarrow> string \<Rightarrow> string \<Rightarrow> ConfidenceLevel" where
  "assess_confidence value etype message role =
     (if role = ''victim'' then LOW
      else if is_likely_fake value (EntityType_value etype) then NEEDS_VERIFICATION
      else if \<exists>pattern \<in> set high_confidence_patterns. re_search True pattern message
      then HIGH
      else MEDIUM)"

definition get_context :: "string \<Rightarrow> nat \<Rightarrow> nat \<Rightarrow> nat \<Rightarrow> string" where
  "get_context message start end window =
     (let context_start = nat (max 0 (int start - int window));
          context_end = min (length message) (end + window)
      in take (context_end - context_start) (drop context_start message))"

definition is_likely_email :: "string \<Rightarrow> bool" where
  "is_likely_email value =
     (\<exists>domain \<in> set [''.com'', ''.org'', ''.net'', ''.in'', ''.co'', ''.edu'', ''.gov''].
        endswith (lower value) domain)"

definition is_duplicate :: "EntityExtractor \<Rightarrow> ExtractedEntity \<Rightarrow> bool" where
  "is_duplicate extracted_entities entity =
     (\<exists>existing \<in> set extracted_entities.
        entity_type existing = entity_type entity
        \<and> normalized_value existing = normalized_value entity)"

text \<open>
  The first loop of \<open>extract\<close>: every match of every pattern of every entity type, in
  that order, except the UPI matches that look like an email address.
\<close>

definition entity_of_match ::
  "Config \<Rightarrow> Network \<Rightarrow> string \<Rightarrow> string \<Rightarrow> EntityType \<Rightarrow> nat \<times> string
     \<Rightarrow> ExtractedEntity list" where
  "entity_of_match config net message role etype m =
     (let value = snd m in
      if etype = UPI_ID \<and> is_likely_email value then []
      else
        let normalized = normalize config net value etype;
            conf = assess_confidence normalized etype message role;
            ctx = get_context message (fst m) (fst m + length value) 30
        in [\<lparr> entity_type = etype, raw_value = value, normalized_value = normalized,
               confidence = conf, context_text = ctx, source_message = message \<rparr>])"

definition matched_entities ::
  "Config \<Rightarrow> Network \<Rightarrow> string \<Rightarrow> string \<Rightarrow> ExtractedEntity list" where
  "matched_entities config net message role =
     concat (map (\<lambda>(entity_type, patterns).
       concat (map (\<lambda>pattern.
         concat (map (entity_of_match config net message role entity_type)
                     (finditer True pattern message)))
         patterns))
       PATTERNS)"

text \<open>The second loop of \<open>extract\<close>: append what is not yet in the running list.\<close>

fun add_entities :: "ExtractedEntity list \<Rightarrow> EntityExtractor \<Rightarrow> EntityExtractor" where
  "add_entities [] extracted_entities = extracted_entities"
| "add_entities (entity # entities) extracted_entities =
     add_entities entities
       (if \<not> is_duplicate extracted_entities entity then extracted_entities @ [entity]
        else extracted_entities)"

text \<open>
  \<open>EntityExtractor.extract\<close>, returning the per-call list and the extractor after the
  call.
\<close>

definition EntityExtractor_extract ::
  "Config \<Rightarrow> Network \<Rightarrow> string \<Rightarrow> string \<Rightarrow> EntityExtractor
     \<Rightarrow> ExtractedEntity list \<times> EntityExtractor" where
  "EntityExtractor_extract config net message role extracted_entities =
     (let entities = matched_entities config net message role
      in (entities, add_entities entities extracted_entities))"

subsection \<open>Sessions of the extractor\<close>

text \<open>
  The key that \<open>is_duplicate\<close> compares, the number of entries of a list under the key
  of an entity, and the extractor of a session: the one that a sequence of calls of
  \<open>extract\<close>, each with its network, message and role, leaves behind, starting from the
  empty list of \<open>__init__\<close>.
\<close>

definition entity_key :: "ExtractedEntity \<Rightarrow> EntityType \<times> string" where
  "entity_key e = (entity_type e, normalized_value e)"

definition pair_count :: "ExtractedEntity list \<Rightarrow> ExtractedEntity \<Rightarrow> nat" where
  "pair_count es e = length (filter (\<lambda>x. entity_key x = entity_key e) es)"

fun session :: "Config \<Rightarrow> (Network \<times> string \<times> string) list \<Rightarrow> EntityExtractor" where
  "session config [] = []"
| "session config (call # calls) =
     (case call of (net, message, role) \<Rightarrow>
        snd (EntityExtractor_extract config net message role (session config calls)))"

text \<open>A network on which every request fails, so that a URL stays as normalised.\<close>

definition offline :: Network where
  "offline = \<lparr> head_request = (\<lambda>url. None) \<rparr>"

section \<open>Scam detection (scam_detector.py, llm_interface.py, utils.py)\<close>

datatype ScamType =
  JOB_SCAM | INVESTMENT_SCAM | BANKING_FRAUD | ROMANCE_SCAM | PRIZE_LOTTERY | TECH_SUPPORT
  | IMPERSONATION | UNKNOWN | NOT_SCAM

definition ScamType_value :: "ScamType \<Rightarrow> string" where
  "ScamType_value t =
     (case t of JOB_SCAM \<Rightarrow> ''job_scam'' | INVESTMENT_SCAM \<Rightarrow> ''investment_scam''
      | BANKING_FRAUD \<Rightarrow> ''banking_fraud'' | ROMANCE_SCAM \<Rightarrow> ''romance_scam''
      | PRIZE_LOTTERY \<Rightarrow> ''prize_lottery'' | TECH_SUPPORT \<Rightarrow> ''tech_support''
      | IMPERSONATION \<Rightarrow> ''impersonation'' | UNKNOWN \<Rightarrow> ''unknown''
      | NOT_SCAM \<Rightarrow> ''not_scam'')"

text \<open>\<open>ScamType(v)\<close>: the member with value \<open>v\<close>, or \<open>None\<close> where Python raises.\<close>

definition ScamType_of_value :: "string \<Rightarrow> ScamType option" where
  "ScamType_of_value v =
     find (\<lambda>t. ScamType_value t = v)
       [JOB_SCAM, INVESTMENT_SCAM, BANKING_FRAUD, ROMANCE_SCAM, PRIZE_LOTTERY, TECH_SUPPORT,
        IMPERSONATION, UNKNOWN, NOT_SCAM]"

subsection \<open>Layer 1: keywords (\<open>KeywordDetector\<close>)\<close>

definition URGENCY_KEYWORDS :: "string list" where
  "URGENCY_KEYWORDS =
     [''urgent'', ''immediately'', ''act now'', ''limited time'', ''expires today'',
      ''last chance'', ''hurry'', ''quick'', ''asap'', ''right now'']"

text \<open>
  The fourteenth money keyword is, in the source file, the seven bytes \<open>C3 A2 E2 80 9A C2 B9\<close>
  (a rupee sign that was re-encoded on the way).
\<close>

definition MONEY_KEYWORDS :: "string list" where
  "MONEY_KEYWORDS =
     [''money'', ''cash'', ''payment'', ''transfer'', ''deposit'', ''account'',
      ''bank'', ''upi'', ''paytm'', ''gpay'', ''phonepe'', ''wallet'',
      [CHR 0xC3, CHR 0xA2, CHR 0xE2, CHR 0x80, CHR 0x9A, CHR 0xC2, CHR 0xB9], ''$'',
      ''lakh'', ''crore'', ''thousand'', ''investment'', ''profit'', ''earn'']"

definition THREAT_KEYWORDS :: "string list" where
  "THREAT_KEYWORDS =
     [''blocked'', ''suspended'', ''deactivated'', ''frozen'', ''locked'',
      ''arrest'', ''legal action'', ''police'', ''court'', ''fine'', ''penalty'',
      ''unauthorized'', ''suspicious activity'', ''security alert'']"

definition REQUEST_KEYWORDS :: "string list" where
  "REQUEST_KEYWORDS =
     [''send'', ''provide'', ''share'', ''verify'', ''confirm'', ''update'',
      ''click'', ''download'', ''install'', ''enter'', ''submit'', ''reply'']"

definition PRIZE_KEYWORDS :: "string list" where
  "PRIZE_KEYWORDS =
     [''won'', ''winner'', ''prize'', ''lottery'', ''lucky'', ''selected'',
      ''congratulations'', ''reward'', ''gift'', ''free'', ''bonus'']"

definition JOB_KEYWORDS :: "string list" where
  "JOB_KEYWORDS =
     [''job'', ''work from home'', ''part time'', ''earn money'', ''hiring'',
      ''opportunity'', ''registration fee'', ''training fee'', ''joining fee'']"

text \<open>
  \<open>LEGITIMATE_PATTERNS\<close>: \<^verbatim>\<open>@amazon\.com$\<close>, \<^verbatim>\<open>@google\.com$\<close>, \<^verbatim>\<open>@microsoft\.com$\<close>,
  \<^verbatim>\<open>@linkedin\.com$\<close> and \<^verbatim>\<open>-[A-Z]{6}$\<close>.
\<close>

definition LEGITIMATE_PATTERNS :: "rx list" where
  "LEGITIMATE_PATTERNS =
     [ Seq (lits ''@amazon.com'') EndS,
       Seq (lits ''@google.com'') EndS,
       Seq (lits ''@microsoft.com'') EndS,
       Seq (lits ''@linkedin.com'') EndS,
       seqs [Lit CHR ''-'', rep 6 6 (Set [Rng CHR ''A'' CHR ''Z'']), EndS] ]"

text \<open>\<open>sum(1 for kw in keywords if kw in message_lower)\<close>.\<close>

definition count_keywords :: "string list \<Rightarrow> string \<Rightarrow> int" where
  "count_keywords keywords message_lower =
     int (length (filter (\<lambda>kw. contains kw message_lower) keywords))"

record KeywordResult =
  kw_score :: real
  kw_scam_type :: ScamType
  kw_indicators :: "string list"

text \<open>
  The whitelist test of \<open>KeywordDetector.detect\<close>: the sender is given and not empty, the
  whitelist is enabled, and some pattern is found in the sender.
\<close>

definition whitelisted :: "Config \<Rightarrow> string option \<Rightarrow> bool" where
  "whitelisted config sender =
     (case sender of
        None \<Rightarrow> False
      | Some s \<Rightarrow> s \<noteq> [] \<and> enable_whitelist (scam_detection config)
                 \<and> (\<exists>pattern \<in> set LEGITIMATE_PATTERNS. re_search True pattern s))"

definition KeywordDetector_detect :: "Config \<Rightarrow> string \<Rightarrow> string option \<Rightarrow> KeywordResult" where
  "KeywordDetector_detect config message sender =
     (let message_lower = lower message in
      if whitelisted config sender
      then \<lparr> kw_score = 0.0, kw_scam_type = NOT_SCAM, kw_indicators = [''whitelisted_sender''] \<rparr>
      else
        let urgency_count = count_keywords URGENCY_KEYWORDS message_lower;
            money_count = count_keywords MONEY_KEYWORDS message_lower;
            threat_count = count_keywords THREAT_KEYWORDS message_lower;
            request_count = count_keywords REQUEST_KEYWORDS message_lower;
            prize_count = count_keywords PRIZE_KEYWORDS message_lower;
            job_count = count_keywords JOB_KEYWORDS message_lower;
            (scam_type, indicators) =
              (if prize_count \<ge> 2 then (PRIZE_LOTTERY, [''prize_keywords''])
               else if job_count \<ge> 2 \<and> money_count \<ge> 1 then (JOB_SCAM, [''job_keywords''])
               else if threat_count \<ge> 2 then (BANKING_FRAUD, [''threat_keywords''])
               else if money_count \<ge> 3 then (INVESTMENT_SCAM, [''money_keywords''])
               else (UNKNOWN, []));
            total_keywords =
              urgency_count + money_count + threat_count + request_count + prize_count
              + job_count;
            (score, indicators) =
              (if urgency_count \<ge> 2 \<and> (money_count \<ge> 2 \<or> threat_count \<ge> 2)
               then (0.8, indicators @ [''urgency_with_money_or_threat''])
               else if total_keywords \<ge> 5 then (0.7, indicators @ [''high_keyword_density''])
               else if total_keywords \<ge> 3
               then (0.5, indicators @ [''moderate_keyword_density''])
               else if total_keywords \<ge> 1 then (0.3, indicators)
               else (0.0, indicators))
        in \<lparr> kw_score = min score 1.0, kw_scam_type = scam_type, kw_indicators = indicators \<rparr>)"

subsection \<open>Layer 2: patterns (\<open>PatternDetector\<close>)\<close>

text \<open>
  \<open>PHONE_PATTERN\<close> is the first phone pattern of the extractor, \<open>BANK_ACCOUNT_PATTERN\<close> is
  \<^verbatim>\<open>\b\d{9,18}\b\<close>, \<open>UPI_PATTERN\<close> is \<^verbatim>\<open>[a-zA-Z0-9._-]+@[a-zA-Z0-9.-]+\<close>, \<open>URL_PATTERN\<close> is
  \<^verbatim>\<open>https?://[^\s]+|www\.[^\s]+|bit\.ly/[^\s]+|tinyurl\.com/[^\s]+\<close>, and the test for
  obfuscated numbers searches \<^verbatim>\<open>\d\s+\d\s+\d\<close>. None of them is used with a flag.
\<close>

definition PHONE_PATTERN :: rx where
  "PHONE_PATTERN =
     seqs [opt (Lit CHR ''+''), rep 1 3 (Set [Digit]), separator,
           opt (Lit CHR ''(''), rep 3 3 (Set [Digit]), opt (Lit CHR '')''), separator,
           rep 3 3 (Set [Digit]), separator, rep 4 4 (Set [Digit])]"

definition BANK_ACCOUNT_PATTERN :: rx where
  "BANK_ACCOUNT_PATTERN = seqs [WordB, rep 9 18 (Set [Digit]), WordB]"

definition UPI_PATTERN :: rx where
  "UPI_PATTERN = seqs [upi_name, Lit CHR ''@'', host_name]"

definition URL_PATTERN :: rx where
  "URL_PATTERN =
     alts [ seqs [lits ''http'', opt (Lit CHR ''s''), lits ''://'', non_space],
            seqs [lits ''www.'', non_space],
            seqs [lits ''bit.ly/'', non_space],
            seqs [lits ''tinyurl.com/'', non_space] ]"

definition SUSPICIOUS_DOMAINS :: "string list" where
  "SUSPICIOUS_DOMAINS = [''bit.ly'', ''tinyurl.com'', ''goo.gl'', ''t.co'', ''.tk'', ''.ml'', ''.ga'', ''.cf'']"

definition obfuscated_numbers :: rx where
  "obfuscated_numbers =
     seqs [Set [Digit], plus1 (Set [Space]), Set [Digit], plus1 (Set [Space]), Set [Digit]]"

record PatternResult =
  pt_score :: real
  pt_indicators :: "string list"

definition PatternDetector_detect :: "string \<Rightarrow> PatternResult" where
  "PatternDetector_detect message =
     (let indicators = []; score = 0.0;
          phone_matches = findall False PHONE_PATTERN message;
          (indicators, score) =
            (if phone_matches \<noteq> []
             then (indicators @ [''phone_numbers:'' @ str_of_nat (length phone_matches)],
                   score + 0.2)
             else (indicators, score));
          bank_matches = findall False BANK_ACCOUNT_PATTERN message;
          (indicators, score) =
            (if bank_matches \<noteq> []
             then (indicators @ [''bank_accounts:'' @ str_of_nat (length bank_matches)],
                   score + 0.3)
             else (indicators, score));
          upi_matches = findall False UPI_PATTERN message;
          upi_matches =
            filter (\<lambda>u. \<not> (\<exists>d \<in> set [''.com'', ''.org'', ''.net'', ''.in'']. endswith u d))
              upi_matches;
          (indicators, score) =
            (if upi_matches \<noteq> []
             then (indicators @ [''upi_ids:'' @ str_of_nat (length upi_matches)], score + 0.3)
             else (indicators, score));
          url_matches = findall False URL_PATTERN message;
          (indicators, score) =
            (if url_matches \<noteq> []
             then
               (let indicators = indicators @ [''urls:'' @ str_of_nat (length url_matches)];
                    score = score + 0.1
                in if \<exists>url \<in> set url_matches.
                        \<exists>domain \<in> set SUSPICIOUS_DOMAINS. contains domain (lower url)
                   then (indicators @ [''suspicious_url''], score + 0.3)
                   else (indicators, score))
             else (indicators, score));
          payment_methods =
            [''upi'', ''paytm'', ''gpay'', ''phonepe'', ''bank account'', ''account number''];
          payment_count =
            int (length (filter (\<lambda>pm. contains pm (lower message)) payment_methods));
          (indicators, score) =
            (if payment_count \<ge> 2
             then (indicators @ [''multiple_payment_methods''], score + 0.2)
             else (indicators, score));
          (indicators, score) =
            (if re_search False obfuscated_numbers message
             then (indicators @ [''obfuscated_numbers''], score + 0.2)
             else (indicators, score))
      in \<lparr> pt_score = min score 1.0, pt_indicators = indicators \<rparr>)"

subsection \<open>Layer 3: the language model (\<open>LLMInterface\<close>)\<close>

record LLMResponse =
  content :: string
  success :: bool
  error :: "string option"
  used_fallback :: bool

text \<open>
  The fields \<open>tokens_used\<close> and \<open>latency_ms\<close> of the source carry accounting only and are
  left out. The interface keeps the provider name and the index of the next fallback
  response.
\<close>

record LLMInterface =
  llm_provider :: string
  fallback_index :: nat

definition LLMInterface_init :: "Config \<Rightarrow> LLMInterface" where
  "LLMInterface_init config = \<lparr> llm_provider = provider (llm config), fallback_index = 0 \<rparr>"

text \<open>
  A value that \<open>json.loads\<close> can return. A number written without fraction and exponent
  is an \<open>int\<close> of Python, of any size (\<open>JInt\<close>); any other number is a float (\<open>JFloat\<close>),
  read as a real, so that the floats that are no number or infinite are outside the
  model.
\<close>

datatype json =
    JNull
  | JBool bool
  | JInt int
  | JFloat real
  | JStr string
  | JArr "json list"
  | JObj "(string \<times> json) list"

text \<open>
  What lies outside the process. \<open>provider_reply name system_prompt user_prompt\<close> is the
  outcome of the request that \<open>_call_openai\<close>, \<open>_call_gemini\<close> or \<open>_call_ollama\<close> makes:
  \<open>Inr\<close> the text of the reply, or \<open>Inl\<close> the text of the exception raised on the way.
  \<open>json_loads\<close> is \<open>json.loads\<close>, \<open>None\<close> where it raises. \<open>str_other\<close> is what an f-string
  prints for a JSON value that is not a string.
\<close>

record Oracle =
  provider_reply :: "string \<Rightarrow> string \<Rightarrow> string \<Rightarrow> string + string"
  json_loads :: "string \<Rightarrow> json option"
  str_other :: "json \<Rightarrow> string"

text \<open>The three \<open>_call_\<close> methods: each catches every exception of its request.\<close>

definition call_provider :: "Oracle \<Rightarrow> string \<Rightarrow> string \<Rightarrow> string \<Rightarrow> LLMResponse" where
  "call_provider oracle name system_prompt user_prompt =
     (case provider_reply oracle name system_prompt user_prompt of
        Inr text \<Rightarrow> \<lparr> content = strip text, success = True, error = None, used_fallback = False \<rparr>
      | Inl e \<Rightarrow> \<lparr> content = [], success = False, error = Some e, used_fallback = False \<rparr>)"

definition fallback_responses :: "string list" where
  "fallback_responses =
     [''I'm not sure I understand. Can you explain more?'',
      ''That sounds interesting. How does this work?'',
      ''I'm a bit confused. Can you help me with the next steps?'',
      ''Okay, what do I need to do?'',
      ''I'm interested, but I want to make sure this is safe.'']"

text \<open>
  \<open>_get_fallback_response\<close>. The index stays below the length of the list, since it
  starts at 0 and is only ever set to a remainder modulo that length.
\<close>

definition get_fallback_response :: "LLMInterface \<Rightarrow> string \<times> LLMInterface" where
  "get_fallback_response self =
     (let response = fallback_responses ! fallback_index self
      in (response,
          self\<lparr>fallback_index := (fallback_index self + 1) mod length fallback_responses\<rparr>))"

definition RESPONSE_VALIDATION_RULES :: "string list" where
  "RESPONSE_VALIDATION_RULES =
     [''as an ai'', ''i am an ai'', ''i cannot'', ''i can't help'', ''i'm not able'',
      ''let me explain how'', ''here's how you'', ''the process works'']"

definition validate_victim_response :: "string \<Rightarrow> bool \<times> string option" where
  "validate_victim_response response =
     (let response_lower = lower response in
      case find (\<lambda>forbidden. contains forbidden response_lower) RESPONSE_VALIDATION_RULES of
        Some forbidden \<Rightarrow>
          (False, Some (''Response contains forbidden phrase: '' @ [CHR 0x27] @ forbidden
                        @ [CHR 0x27]))
      | None \<Rightarrow>
          if length (split response) > 50
          then (False, Some ''Response too long for victim persona'')
          else if \<exists>term \<in> set [''algorithm'', ''api'', ''database'', ''encryption'', ''protocol''].
                    contains term response_lower
          then (False, Some ''Response contains technical jargon'')
          else (True, None))"

definition generate ::
  "Oracle \<Rightarrow> Config \<Rightarrow> LLMInterface \<Rightarrow> string \<Rightarrow> string \<Rightarrow> bool
     \<Rightarrow> LLMResponse \<times> LLMInterface" where
  "generate oracle config self system_prompt user_prompt validate_response =
     (let response =
            (if llm_provider self \<in> set [''openai'', ''gemini'', ''ollama'']
             then call_provider oracle (llm_provider self) system_prompt user_prompt
             else \<lparr> content = [], success = False, error = Some ''Unknown provider'',
                    used_fallback = False \<rparr>)
      in if \<not> success response \<and> \<not> enable_fallback (llm config) then (response, self)
         else
           let (response, self) =
                 (if \<not> success response
                  then (case get_fallback_response self of (text, self') \<Rightarrow>
                          (response\<lparr>content := text, success := True, used_fallback := True\<rparr>,
                           self'))
                  else (response, self))
           in if validate_response
              then (case validate_victim_response (content response) of (is_valid, err) \<Rightarrow>
                      if \<not> is_valid
                      then if enable_fallback (llm config)
                           then (case get_fallback_response self of (text, self') \<Rightarrow>
                                   (response\<lparr>content := text, used_fallback := True\<rparr>, self'))
                           else (response\<lparr>success := False, error := err\<rparr>, self)
                      else (response, self))
              else (response, self))"

definition SCAM_DETECTION_SYSTEM_PROMPT :: string where
  "SCAM_DETECTION_SYSTEM_PROMPT =
     ''You are a scam detection AI. Analyze the message and determine if it's a scam.''
     @ [CHR 0x0A, CHR 0x0A] @ ''CRITICAL RULES:'' @ [CHR 0x0A]
     @ ''- Only classify as scam if you have strong evidence'' @ [CHR 0x0A]
     @ ''- Consider context: legitimate businesses may ask for information'' @ [CHR 0x0A]
     @ ''- DO NOT be overly aggressive - false positives are costly'' @ [CHR 0x0A]
     @ ''- Provide reasoning for your classification'' @ [CHR 0x0A, CHR 0x0A]
     @ ''Output format: JSON with keys: is_scam (boolean), confidence (0.0-1.0), ''
     @ ''scam_type (string), reasoning (string)''"

text \<open>\<open>detect_scam\<close> returns the parsed reply, or a dictionary of its own making.\<close>

definition detect_scam ::
  "Oracle \<Rightarrow> Config \<Rightarrow> LLMInterface \<Rightarrow> string \<Rightarrow> json \<times> LLMInterface" where
  "detect_scam oracle config self message =
     (let user_prompt =
            ''Analyze this message for scam indicators:'' @ [CHR 0x0A, CHR 0x0A] @ message
      in case generate oracle config self SCAM_DETECTION_SYSTEM_PROMPT user_prompt False of
           (response, self') \<Rightarrow>
             if \<not> success response
             then (JObj [(''is_scam'', JBool False), (''confidence'', JFloat 0.0),
                         (''scam_type'', JStr ''unknown''),
                         (''reasoning'', JStr ''LLM analysis failed'')], self')
             else (case json_loads oracle (content response) of
                     Some result \<Rightarrow> (result, self')
                   | None \<Rightarrow>
                       (JObj [(''is_scam'',
                               JBool (contains ''scam'' (lower (content response)))),
                              (''confidence'', JFloat 0.5),
                              (''scam_type'', JStr ''unknown''),
                              (''reasoning'', JStr (content response))], self')))"

text \<open>
  The request that \<open>detect_scam\<close> makes for a message fails: the provider is none of the
  three known ones, or its call raises.
\<close>

definition detect_request_fails :: "Oracle \<Rightarrow> LLMInterface \<Rightarrow> string \<Rightarrow> bool" where
  "detect_request_fails oracle self message =
     (if llm_provider self \<in> set [''openai'', ''gemini'', ''ollama'']
      then (case provider_reply oracle (llm_provider self) SCAM_DETECTION_SYSTEM_PROMPT
                   (''Analyze this message for scam indicators:'' @ [CHR 0x0A, CHR 0x0A]
                    @ message) of
              Inl e \<Rightarrow> True | Inr text \<Rightarrow> False)
      else True)"

subsection \<open>Fusion (\<open>calculate_weighted_score\<close>, \<open>ScamDetector.detect\<close>)\<close>

text \<open>A dictionary with string keys is an association list, in the order of insertion.\<close>

definition calculate_weighted_score ::
  "(string \<times> real) list \<Rightarrow> (string \<times> real) list \<Rightarrow> real" where
  "calculate_weighted_score scores weights =
     (if scores = [] \<or> weights = [] then 0.0
      else
        let total_score =
              sum_list (map (\<lambda>(key, weight).
                (case map_of scores key of Some v \<Rightarrow> v | None \<Rightarrow> 0.0) * weight) weights);
            total_weight = sum_list (map snd weights)
        in if total_weight > 0 then total_score / total_weight else 0.0)"

record ScamDetectionResult =
  is_scam :: bool
  sd_confidence :: real
  scam_type :: ScamType
  reasoning :: string
  layer_scores :: "(string \<times> real) list"

text \<open>
  The exceptions \<open>ScamDetector.detect\<close> lets through: \<open>AttributeError\<close> when the parsed
  reply is not a dictionary and so has no \<open>get\<close>; \<open>TypeError\<close> when the reported confidence
  is no number, and \<open>OverflowError\<close> when it is an \<open>int\<close> too large for a float, both raised
  by the product of score and weight in \<open>calculate_weighted_score\<close>.
\<close>

datatype py_error = AttributeError | TypeError | OverflowError

text \<open>Python's truth value of a JSON value, and \<open>dict.get\<close>.\<close>

definition truthy :: "json \<Rightarrow> bool" where
  "truthy j =
     (case j of JNull \<Rightarrow> False | JBool b \<Rightarrow> b | JInt n \<Rightarrow> n \<noteq> 0 | JFloat x \<Rightarrow> x \<noteq> 0
      | JStr s \<Rightarrow> s \<noteq> [] | JArr xs \<Rightarrow> xs \<noteq> [] | JObj kvs \<Rightarrow> kvs \<noteq> [])"

definition dict_get :: "(string \<times> json) list \<Rightarrow> string \<Rightarrow> json \<Rightarrow> json" where
  "dict_get d key dflt = (case map_of d key of Some v \<Rightarrow> v | None \<Rightarrow> dflt)"

text \<open>
  A score as the product \<open>score * weight\<close> with a float weight reads it. A float is
  itself and a boolean is 1 or 0. An \<open>int\<close> is converted to the nearest float, which
  raises \<open>OverflowError\<close> from \<open>2 ^ 1024 - 2 ^ 970\<close> on, the first integer that rounds
  beyond the largest float. Anything else raises \<open>TypeError\<close>.
\<close>

definition as_number :: "json \<Rightarrow> py_error + real" where
  "as_number j =
     (case j of
        JFloat x \<Rightarrow> Inr x
      | JBool b \<Rightarrow> Inr (if b then 1 else 0)
      | JInt n \<Rightarrow>
          if \<bar>n\<bar> < 2 ^ 1024 - 2 ^ 970 then Inr (real_of_int n) else Inl OverflowError
      | _ \<Rightarrow> Inl TypeError)"

definition py_str :: "Oracle \<Rightarrow> json \<Rightarrow> string" where
  "py_str oracle j = (case j of JStr s \<Rightarrow> s | _ \<Rightarrow> str_other oracle j)"

definition ScamDetector_detect ::
  "Oracle \<Rightarrow> Config \<Rightarrow> LLMInterface \<Rightarrow> string \<Rightarrow> string option
     \<Rightarrow> (py_error + ScamDetectionResult) \<times> LLMInterface" where
  "ScamDetector_detect oracle config self message sender =
     (let keyword_result = KeywordDetector_detect config message sender;
          keyword_score = kw_score keyword_result;
          pattern_result = PatternDetector_detect message;
          pattern_score = pt_score pattern_result
      in case detect_scam oracle config self message of
           (llm_json, self') \<Rightarrow>
             (case llm_json of
                JObj llm_result \<Rightarrow>
                  let llm_score =
                        (if truthy (dict_get llm_result ''is_scam'' (JBool False))
                         then dict_get llm_result ''confidence'' (JFloat 0.0)
                         else JFloat 0.0)
                  in (case as_number llm_score of
                        Inl e \<Rightarrow> (Inl e, self')
                      | Inr llm_score \<Rightarrow>
                          let weights =
                                [(''keyword'', keyword_weight (scam_detection config)),
                                 (''pattern'', pattern_weight (scam_detection config)),
                                 (''llm'', llm_weight (scam_detection config))];
                              scores =
                                [(''keyword'', keyword_score), (''pattern'', pattern_score),
                                 (''llm'', llm_score)];
                              final_confidence = calculate_weighted_score scores weights;
                              is_scam =
                                (final_confidence
                                   \<ge> confidence_threshold (scam_detection config));
                              scam_type =
                                (if kw_scam_type keyword_result \<noteq> UNKNOWN
                                 then kw_scam_type keyword_result
                                 else if truthy (dict_get llm_result ''scam_type'' JNull)
                                 then (case dict_get llm_result ''scam_type'' JNull of
                                         JStr v \<Rightarrow>
                                           (case ScamType_of_value v of
                                              Some t \<Rightarrow> t | None \<Rightarrow> UNKNOWN)
                                       | _ \<Rightarrow> UNKNOWN)
                                 else if is_scam then UNKNOWN else NOT_SCAM);
                              reasoning_parts =
                                (if kw_indicators keyword_result \<noteq> []
                                 then [''Keywords: '' @ join '', '' (kw_indicators keyword_result)]
                                 else [])
                                @ (if pt_indicators pattern_result \<noteq> []
                                   then [''Patterns: ''
                                         @ join '', '' (pt_indicators pattern_result)]
                                   else [])
                                @ (if truthy (dict_get llm_result ''reasoning'' JNull)
                                   then [''LLM: ''
                                         @ py_str oracle (dict_get llm_result ''reasoning'' JNull)]
                                   else []);
                              reasoning =
                                (if reasoning_parts \<noteq> [] then join '' | '' reasoning_parts
                                 else ''No strong indicators'')
                          in (Inr \<lparr> is_scam = is_scam, sd_confidence = final_confidence,
                                    scam_type = scam_type, reasoning = reasoning,
                                    layer_scores = scores \<rparr>, self'))
              | _ \<Rightarrow> (Inl AttributeError, self')))"

section \<open>Strategy engine (strategy_engine.py)\<close>

datatype StrategyPhase = BUILD_TRUST | EXTRACT_INTEL | DELAY_PROBE | EXIT

datatype StopReason =
  MAX_MESSAGES | ENTITIES_EXTRACTED | SCAMMER_SUSPICIOUS | UNPRODUCTIVE | TIME_LIMIT
  | SCAMMER_ENDED | DEMO_MODE | SCAMMER_DISENGAGED | AGENT_DISENGAGED

record ConversationState =
  message_count :: int
  start_time :: real
  current_phase :: StrategyPhase
  scammer_repetitions :: int
  last_scammer_message :: string
  suspicion_indicators :: "string list"

text \<open>\<open>should_stop\<close> reads the clock; \<open>now\<close> is the value of \<open>time.time()\<close>.\<close>

definition should_stop ::
  "Config \<Rightarrow> EntityExtractor \<Rightarrow> real \<Rightarrow> ConversationState \<Rightarrow> bool \<times> StopReason option" where
  "should_stop config extractor now state =
     (if message_count state \<ge> max_messages (engagement config) then (True, Some MAX_MESSAGES)
      else
        let elapsed_minutes = (now - start_time state) / 60 in
        if elapsed_minutes \<ge> real_of_int (max_duration_minutes (engagement config))
        then (True, Some TIME_LIMIT)
        else
          let entity_count = get_entity_count extractor in
          if entity_count \<ge> min_entities_for_stop (engagement config)
          then (True, Some ENTITIES_EXTRACTED)
          else if int (length (suspicion_indicators state)) \<ge> 2
          then (True, Some SCAMMER_SUSPICIOUS)
          else if scammer_repetitions state \<ge> max_repetitions (engagement config)
          then (True, Some UNPRODUCTIVE)
          else (False, None))"

definition determine_phase :: "Config \<Rightarrow> EntityExtractor \<Rightarrow> ConversationState \<Rightarrow> StrategyPhase" where
  "determine_phase config extractor state =
     (let message_count = message_count state;
          entity_count = get_entity_count extractor
      in if message_count < 3 then BUILD_TRUST
         else if message_count < 8 \<and> entity_count < 2 then EXTRACT_INTEL
         else if entity_count \<ge> 1 \<and> message_count < max_messages (engagement config) - 3
         then DELAY_PROBE
         else EXIT)"

definition StrategyPhase_value :: "StrategyPhase \<Rightarrow> string" where
  "StrategyPhase_value ph =
     (case ph of BUILD_TRUST \<Rightarrow> ''build_trust'' | EXTRACT_INTEL \<Rightarrow> ''extract_intel''
      | DELAY_PROBE \<Rightarrow> ''delay_probe'' | EXIT \<Rightarrow> ''exit'')"

text \<open>
  \<open>SUSPICION_INDICATORS\<close> and \<open>UNPRODUCTIVE_INDICATORS\<close>: each pattern with its source
  text, which \<open>analyze_scammer_message\<close> stores. In a raw string of Python a backslash
  before an apostrophe stays in the text, and the pattern it makes matches an apostrophe.
\<close>

definition SUSPICION_INDICATORS :: "(string \<times> rx) list" where
  "SUSPICION_INDICATORS =
     [ (''are you (?:a )?(?:bot|robot|ai)'',
        seqs [lits ''are you '', opt (lits ''a ''),
              alts [lits ''bot'', lits ''robot'', lits ''ai'']]),
       (''are you real'', lits ''are you real''),
       (''send (?:me )?(?:a )?(?:voice|audio|video)'',
        seqs [lits ''send '', opt (lits ''me ''), opt (lits ''a ''),
              alts [lits ''voice'', lits ''audio'', lits ''video'']]),
       (''call me'', lits ''call me''),
       (''video call'', lits ''video call''),
       (''prove you(?:'' @ [CHR 0x5C, CHR 0x27] @ ''re| are) real'',
        seqs [lits ''prove you'', alts [Seq (Lit (CHR 0x27)) (lits ''re''), lits '' are''],
              lits '' real'']),
       (''show me your (?:face|photo)'',
        seqs [lits ''show me your '', alts [lits ''face'', lits ''photo'']]),
       (''why (?:are you|you'' @ [CHR 0x5C, CHR 0x27] @ ''re) asking so many questions'',
        seqs [lits ''why '', alts [lits ''are you'', lits ''you're''],
              lits '' asking so many questions'']) ]"

definition UNPRODUCTIVE_INDICATORS :: "(string \<times> rx) list" where
  "UNPRODUCTIVE_INDICATORS =
     [ (''(?:stop|leave me alone|don'' @ [CHR 0x5C, CHR 0x27] @ ''t (?:contact|message))'',
        alts [lits ''stop'', lits ''leave me alone'',
              seqs [lits ''don't '', alts [lits ''contact'', lits ''message'']]]),
       (''i'' @ [CHR 0x5C, CHR 0x27] @ ''m not interested'', lits ''i'm not interested''),
       (''this is (?:a )?scam'', seqs [lits ''this is '', opt (lits ''a ''), lits ''scam'']),
       (''i will (?:report|complain)'',
        seqs [lits ''i will '', alts [lits ''report'', lits ''complain'']]) ]"

record Analysis =
  suspicion_detected :: bool
  unproductive_detected :: bool
  is_repetition :: bool
  an_indicators :: "string list"

text \<open>\<open>analyze_scammer_message\<close> returns its analysis and the state it leaves.\<close>

definition analyze_scammer_message ::
  "string \<Rightarrow> ConversationState \<Rightarrow> Analysis \<times> ConversationState" where
  "analyze_scammer_message message state =
     (let suspicious = filter (\<lambda>(pattern, r). re_search True r message) SUSPICION_INDICATORS;
          unproductive = filter (\<lambda>(pattern, r). re_search True r message) UNPRODUCTIVE_INDICATORS;
          state = state\<lparr>suspicion_indicators :=
                          suspicion_indicators state @ map fst suspicious\<rparr>;
          repetition =
            (lower (strip message) = lower (strip (last_scammer_message state)));
          state =
            (if repetition
             then state\<lparr>scammer_repetitions := scammer_repetitions state + 1\<rparr>
             else state\<lparr>scammer_repetitions := 0, last_scammer_message := message\<rparr>)
      in (\<lparr> suspicion_detected = (suspicious \<noteq> []),
             unproductive_detected = (unproductive \<noteq> []),
             is_repetition = repetition,
             an_indicators =
               map (\<lambda>(pattern, r). ''suspicion:'' @ pattern) suspicious
               @ map (\<lambda>(pattern, r). ''unproductive:'' @ pattern) unproductive \<rparr>,
          state))"

record Strategy =
  goal :: string
  tactics :: "string list"
  example_prompts :: "string list"

definition PHASE_STRATEGIES :: "StrategyPhase \<Rightarrow> Strategy option" where
  "PHASE_STRATEGIES ph =
     (case ph of
        BUILD_TRUST \<Rightarrow> Some
          \<lparr> goal = ''Establish rapport and show interest'',
            tactics =
              [''Introduce yourself with name and basic details'',
               ''Share your situation/need that makes this attractive'',
               ''Express excitement and eagerness'',
               ''Ask specific questions about next steps'',
               ''Show vulnerability and trust''],
            example_prompts =
              [''Hi! I'm [name], [age] from [location]. This sounds amazing! How do I get started?'',
               ''I really need this! I'm [situation]. Where should I send the payment?'',
               ''This is exactly what I've been looking for! What's your account number?''] \<rparr>
      | EXTRACT_INTEL \<Rightarrow> Some
          \<lparr> goal = ''Get scammer to reveal payment/contact details'',
            tactics =
              [''Volunteer payment readiness'',
               ''Ask for specific payment details (UPI, account, phone)'',
               ''Share financial situation to appear genuine'',
               ''Express urgency and willingness to proceed'',
               ''Request contact information''],
            example_prompts =
              [''I have the money ready! Should I use UPI or bank transfer? What's your ID?'',
               ''I can pay right now. Just tell me your account number and I'll send it.'',
               ''My son helped me set up online banking. What's your phone number or UPI?''] \<rparr>
      | DELAY_PROBE \<Rightarrow> Some
          \<lparr> goal = ''Extract more information while appearing cautious'',
            tactics =
              [''Share concerns while maintaining interest'',
               ''Mention family/friends to extract verification details'',
               ''Request additional contact methods'',
               ''Ask for proof while staying engaged'',
               ''Delay commitment to keep conversation going''],
            example_prompts =
              [''My daughter said to be careful. Can you send me your office address or website?'',
               ''I want to do this, but my friend wants to verify. What's your company registration number?'',
               ''I'm ready to pay, but can you also give me a WhatsApp number I can call?''] \<rparr>
      | EXIT \<Rightarrow> None)"

datatype Guidance =
    ExitGuidance string string string
  | PhaseGuidance string string "string list" "string list"

text \<open>
  \<open>get_strategy_guidance\<close> stores the phase it determines. \<open>ExitGuidance\<close> holds the keys
  \<open>phase\<close>, \<open>goal\<close>, \<open>guidance\<close> of the dictionary returned, \<open>PhaseGuidance\<close> the keys
  \<open>phase\<close>, \<open>goal\<close>, \<open>tactics\<close>, \<open>example_prompts\<close>.
\<close>

definition get_strategy_guidance ::
  "Config \<Rightarrow> EntityExtractor \<Rightarrow> ConversationState \<Rightarrow> Guidance \<times> ConversationState" where
  "get_strategy_guidance config extractor state =
     (let phase = determine_phase config extractor state;
          state = state\<lparr>current_phase := phase\<rparr>
      in if phase = EXIT
         then (ExitGuidance (StrategyPhase_value phase) ''End conversation gracefully''
                 ''Express thanks but indicate you need to go or think about it'', state)
         else (case PHASE_STRATEGIES phase of
                 Some strategy \<Rightarrow>
                   (PhaseGuidance (StrategyPhase_value phase) (goal strategy)
                      (tactics strategy) (example_prompts strategy), state)
               | None \<Rightarrow> (PhaseGuidance (StrategyPhase_value phase) [] [] [], state)))"

definition increment_message_count :: "ConversationState \<Rightarrow> ConversationState" where
  "increment_message_count state = state\<lparr>message_count := message_count state + 1\<rparr>"

text \<open>
  A triple-quoted text of the source: a line feed, then each line followed by one. The
  media pattern of \<open>get_adaptive_prompt_addition\<close> is
  \<^verbatim>\<open>(?:voice|audio|video|call|photo|picture)\<close>.
\<close>

definition text_block :: "string list \<Rightarrow> string" where
  "text_block ls = CHR 0x0A # concat (map (\<lambda>l. l @ [CHR 0x0A]) ls)"

definition media_request :: rx where
  "media_request =
     alts [lits ''voice'', lits ''audio'', lits ''video'', lits ''call'', lits ''photo'',
           lits ''picture'']"

definition get_adaptive_prompt_addition ::
  "string \<Rightarrow> ConversationState \<Rightarrow> string \<times> ConversationState" where
  "get_adaptive_prompt_addition scammer_message state =
     (case analyze_scammer_message scammer_message state of
        (analysis, state) \<Rightarrow>
          if suspicion_detected analysis
          then (text_block
                  [''IMPORTANT: The scammer is testing if you're real. '',
                   ''- DO NOT reveal you're AI'',
                   ''- Make excuses for not sending voice/video (broken camera, shy, etc.)'',
                   ''- Act more human-like with natural responses''], state)
          else if re_search True media_request scammer_message
          then (text_block
                  [''IMPORTANT: Scammer wants voice/video.'',
                   ''Respond with a text-based excuse:'',
                   ''- \"My camera is broken\"'',
                   ''- \"I can't do voice calls right now, I'm at work\"'',
                   ''- \"I prefer to chat by text\"'',
                   ''- \"My phone doesn't have good audio\"''], state)
          else if contains ''?'' scammer_message \<and> length (split scammer_message) < 10
          then (text_block
                  [''IMPORTANT: Scammer asked a direct question.'',
                   ''- Answer briefly and deflect back to the scam topic'',
                   ''- Stay in character'',
                   ''- Don't overthink it''], state)
          else ([], state))"

record StateSummary =
  sm_message_count :: int
  sm_elapsed_minutes :: real
  sm_current_phase :: string
  sm_entities_extracted :: int
  sm_suspicion_indicators :: int
  sm_scammer_repetitions :: int

text \<open>
  \<open>get_state_summary\<close>; \<open>round2\<close> is Python's \<open>round(x, 2)\<close> on floats, which the model
  does not fix.
\<close>

definition get_state_summary ::
  "(real \<Rightarrow> real) \<Rightarrow> EntityExtractor \<Rightarrow> real \<Rightarrow> ConversationState \<Rightarrow> StateSummary" where
  "get_state_summary round2 extractor now state =
     (let elapsed_minutes = (now - start_time state) / 60
      in \<lparr> sm_message_count = message_count state,
           sm_elapsed_minutes = round2 elapsed_minutes,
           sm_current_phase = StrategyPhase_value (current_phase state),
           sm_entities_extracted = get_entity_count extractor,
           sm_suspicion_indicators = int (length (suspicion_indicators state)),
           sm_scammer_repetitions = scammer_repetitions state \<rparr>)"

text \<open>
  The operations of the strategy engine, each with what it reads besides the state, and
  the state each leaves. \<open>should_stop\<close>, \<open>determine_phase\<close> and \<open>get_state_summary\<close> assign
  to no field.
\<close>

datatype StrategyOp =
    ShouldStop EntityExtractor real
  | AnalyzeMessage string
  | DeterminePhase EntityExtractor
  | StrategyGuidance EntityExtractor
  | IncrementMessageCount
  | AdaptivePromptAddition string
  | GetStateSummary EntityExtractor real

fun is_increment :: "StrategyOp \<Rightarrow> bool" where
  "is_increment IncrementMessageCount = True"
| "is_increment _ = False"

fun run_op :: "Config \<Rightarrow> StrategyOp \<Rightarrow> ConversationState \<Rightarrow> ConversationState" where
  "run_op config (ShouldStop extractor now) state = state"
| "run_op config (AnalyzeMessage message) state = snd (analyze_scammer_message message state)"
| "run_op config (DeterminePhase extractor) state = state"
| "run_op config (StrategyGuidance extractor) state =
     snd (get_strategy_guidance config extractor state)"
| "run_op config IncrementMessageCount state = increment_message_count state"
| "run_op config (AdaptivePromptAddition message) state =
     snd (get_adaptive_prompt_addition message state)"
| "run_op config (GetStateSummary extractor now) state = state"

fun run_ops :: "Config \<Rightarrow> StrategyOp list \<Rightarrow> ConversationState \<Rightarrow> ConversationState" where
  "run_ops config [] state = state"
| "run_ops config (op # ops) state = run_ops config ops (run_op config op state)"

text \<open>
  The stop conditions as the specification lists them, in its priority order; the
  evaluator the specification describes returns the reason of the first one that holds.
\<close>

definition stop_conditions ::
  "Config \<Rightarrow> EntityExtractor \<Rightarrow> real \<Rightarrow> ConversationState \<Rightarrow> (bool \<times> StopReason) list" where
  "stop_conditions config extractor now state =
     [ (message_count state \<ge> max_messages (engagement config), MAX_MESSAGES),
       ((now - start_time state) / 60 \<ge> real_of_int (max_duration_minutes (engagement config)),
        TIME_LIMIT),
       (get_entity_count extractor \<ge> min_entities_for_stop (engagement config),
        ENTITIES_EXTRACTED),
       (length (suspicion_indicators state) \<ge> 2, SCAMMER_SUSPICIOUS),
       (scammer_repetitions state \<ge> max_repetitions (engagement config), UNPRODUCTIVE) ]"

fun first_true :: "(bool \<times> StopReason) list \<Rightarrow> bool \<times> StopReason option" where
  "first_true [] = (False, None)"
| "first_true ((c, r) # rest) = (if c then (True, Some r) else first_true rest)"

text \<open>A session state and an entity used in the examples below.\<close>

definition state_with_count :: "int \<Rightarrow> ConversationState" where
  "state_with_count n =
     \<lparr> message_count = n, start_time = 0, current_phase = BUILD_TRUST,
       scammer_repetitions = 0, last_scammer_message = [], suspicion_indicators = [] \<rparr>"

definition sample_entity :: "string \<Rightarrow> ExtractedEntity" where
  "sample_entity v =
     \<lparr> entity_type = UPI_ID, raw_value = v, normalized_value = v, confidence = MEDIUM,
       context_text = v, source_message = v \<rparr>"

section \<open>Inputs of the examples\<close>

text \<open>
  An oracle whose every request raises, as on a timeout. \<open>json.loads\<close> raises on each of
  the fallback responses, none of which is JSON, and this oracle's \<open>json_loads\<close> is only
  ever applied to those.
\<close>

definition failing_oracle :: Oracle where
  "failing_oracle =
     \<lparr> provider_reply = (\<lambda>name system_prompt user_prompt. Inl ''timeout''),
       json_loads = (\<lambda>text. None),
       str_other = (\<lambda>j. []) \<rparr>"


text \<open>
  An entity whose raw value, normalised value, context and message are one text, as a
  message that consists of the identifier alone yields it.
\<close>

definition plain_entity :: "EntityType \<Rightarrow> string \<Rightarrow> ConfidenceLevel \<Rightarrow> ExtractedEntity" where
  "plain_entity t v c =
     \<lparr> entity_type = t, raw_value = v, normalized_value = v, confidence = c,
       context_text = v, source_message = v \<rparr>"

text \<open>
  Weights that sum to 1 with a negative one among them; \<open>Config.validate\<close> tests the sum
  only.
\<close>

definition skewed_config :: Config where
  "skewed_config =
     default_config\<lparr>scam_detection :=
       (scam_detection default_config)
         \<lparr>keyword_weight := 2, pattern_weight := - 1, llm_weight := 0\<rparr>\<rparr>"

section \<open>Evaluations on the example inputs\<close>

text \<open>
  What the model computes on the inputs used below. The message \<open>abc@ybl\<close> holds one UPI
  identifier; \<open>9876543210\<close> and \<open>19876543210\<close> are bare numbers of ten and eleven digits;
  \<open>123456789\<close> has the shape of a bank account and of nothing else.
\<close>

lemma matched_abc_scammer:
  "matched_entities default_config offline ''abc@ybl'' ''scammer''
   = [plain_entity UPI_ID ''abc@ybl'' MEDIUM]"
  by code_simp

lemma matched_abc_victim:
  "matched_entities default_config offline ''abc@ybl'' ''victim''
   = [plain_entity UPI_ID ''abc@ybl'' LOW]"
  by code_simp

lemma matched_ten_digits:
  "matched_entities default_config offline ''9876543210'' ''scammer''
   = [plain_entity BANK_ACCOUNT ''9876543210'' MEDIUM,
      plain_entity PHONE_NUMBER ''9876543210'' MEDIUM]"
  by code_simp

lemma matched_eleven_digits:
  "matched_entities default_config offline ''19876543210'' ''scammer''
   = [plain_entity BANK_ACCOUNT ''19876543210'' MEDIUM,
      plain_entity PHONE_NUMBER ''19876543210'' MEDIUM,
      plain_entity PHONE_NUMBER ''19876543210'' MEDIUM]"
  by code_simp


lemma detect_digits_whitelisted:
  "ScamDetector_detect failing_oracle default_config (LLMInterface_init default_config)
     ''123456789'' (Some ''noreply@amazon.com'')
   = (Inr \<lparr> is_scam = False, sd_confidence = 9 / 100, scam_type = NOT_SCAM,
            reasoning = ''Keywords: whitelisted_sender | Patterns: bank_accounts:1 | LLM: I'm not sure I understand. Can you explain more?'',
            layer_scores = [(''keyword'', 0), (''pattern'', 3 / 10), (''llm'', 0)] \<rparr>,
      \<lparr> llm_provider = ''openai'', fallback_index = 1 \<rparr>)"
  by code_simp

lemma detect_urgent_skewed:
  "ScamDetector_detect failing_oracle skewed_config (LLMInterface_init skewed_config)
     ''URGENT! Act now: transfer money'' None
   = (Inr \<lparr> is_scam = True, sd_confidence = 8 / 5, scam_type = UNKNOWN,
            reasoning = ''Keywords: urgency_with_money_or_threat | LLM: I'm not sure I understand. Can you explain more?'',
            layer_scores = [(''keyword'', 4 / 5), (''pattern'', 0), (''llm'', 0)] \<rparr>,
      \<lparr> llm_provider = ''openai'', fallback_index = 1 \<rparr>)"
  by code_simp

lemma detect_hello:
  "ScamDetector_detect failing_oracle default_config (LLMInterface_init default_config)
     ''hello'' None
   = (Inr \<lparr> is_scam = False, sd_confidence = 0, scam_type = UNKNOWN,
            reasoning = ''LLM: I'm not sure I understand. Can you explain more?'',
            layer_scores = [(''keyword'', 0), (''pattern'', 0), (''llm'', 0)] \<rparr>,
      \<lparr> llm_provider = ''openai'', fallback_index = 1 \<rparr>)"
  by code_simp


lemma urgent_counts:
  "count_keywords URGENCY_KEYWORDS (lower ''URGENT! Act now: transfer money'') = 2
   \<and> count_keywords MONEY_KEYWORDS (lower ''URGENT! Act now: transfer money'') = 2"
  by code_simp

lemma fallback_texts:
  "\<forall>t \<in> set fallback_responses. t \<noteq> [] \<and> \<not> contains ''scam'' (lower t)"
  by code_simp

section \<open>The classifier\<close>

subsection \<open>The shape of a classification\<close>


lemma weighted_three:
  "calculate_weighted_score [(''keyword'', ks), (''pattern'', ps), (''llm'', ls)]
     [(''keyword'', kw), (''pattern'', pw), (''llm'', lw)]
   = (if kw + pw + lw > 0 then (ks * kw + ps * pw + ls * lw) / (kw + pw + lw) else 0)"
  by (simp add: calculate_weighted_score_def Let_def add.assoc)

lemma detect_result_shape:
  assumes "ScamDetector_detect orc config self message sender = (Inr r, self')"
  shows "\<exists>ls. layer_scores r
            = [(''keyword'', kw_score (KeywordDetector_detect config message sender)),
               (''pattern'', pt_score (PatternDetector_detect message)), (''llm'', ls)]
          \<and> sd_confidence r
            = calculate_weighted_score (layer_scores r)
                [(''keyword'', keyword_weight (scam_detection config)),
                 (''pattern'', pattern_weight (scam_detection config)),
                 (''llm'', llm_weight (scam_detection config))]
          \<and> is_scam r = (sd_confidence r \<ge> confidence_threshold (scam_detection config))
          \<and> (kw_scam_type (KeywordDetector_detect config message sender) \<noteq> UNKNOWN
               \<longrightarrow> scam_type r = kw_scam_type (KeywordDetector_detect config message sender))"
  using assms
  by (auto simp: ScamDetector_detect_def Let_def
      split: prod.splits json.splits option.splits sum.splits)

lemma as_number_JFloat: "as_number (JFloat x) = Inr x"
  by (simp add: as_number_def)


text \<open>
  It raises \<open>OverflowError\<close> when the reply reports a scam with an integer confidence of
  \<open>2 ^ 1024 - 2 ^ 970\<close> or more in size.
\<close>

lemma huge_confidence_raises:
  assumes "detect_scam orc config self message = (JObj d, self')"
    and "truthy (dict_get d ''is_scam'' (JBool False))"
    and "dict_get d ''confidence'' (JFloat 0.0) = JInt n"
    and "\<bar>n\<bar> \<ge> 2 ^ 1024 - 2 ^ 970"
  shows "ScamDetector_detect orc config self message sender = (Inl OverflowError, self')"
  using assms by (simp add: ScamDetector_detect_def Let_def as_number_def)

subsection \<open>Whitelisted senders\<close>




subsection \<open>Fusion of the layer scores\<close>

text \<open>
  C4 (as stated): for all layer weights that sum to 1.0 and all layer scores in [0,1] the
  fused confidence is the weighted mean and lies in [0,1]. The bound fails when a weight
  is negative: with the weights 2, -1 and 0, which sum to 1, the message
  \<open>URGENT! Act now: transfer money\<close> has the layer scores 0.8, 0 and 0 and the
  confidence 1.6.
\<close>

theorem negative_weight_confidence_above_one:
  "keyword_weight (scam_detection skewed_config) + pattern_weight (scam_detection skewed_config)
     + llm_weight (scam_detection skewed_config) = 1
   \<and> map_sum id layer_scores
       (fst (ScamDetector_detect failing_oracle skewed_config
               (LLMInterface_init skewed_config) ''URGENT! Act now: transfer money'' None))
     = Inr [(''keyword'', 4 / 5), (''pattern'', 0), (''llm'', 0)]
   \<and> map_sum id sd_confidence
       (fst (ScamDetector_detect failing_oracle skewed_config
               (LLMInterface_init skewed_config) ''URGENT! Act now: transfer money'' None))
     = Inr (8 / 5)
   \<and> \<not> (8 / 5 \<le> (1::real))"
proof -
  have "keyword_weight (scam_detection skewed_config)
        + pattern_weight (scam_detection skewed_config)
        + llm_weight (scam_detection skewed_config) = 1"
    by (simp add: skewed_config_def default_config_def)
  then show ?thesis by (simp add: detect_urgent_skewed)
qed

text \<open>
  C4 (amended): for all layer weights that are not negative and sum to 1.0, and all three
  layer scores in [0,1], the confidence of the result is the weighted mean of the three
  layer scores and lies in [0,1], and \<open>is_scam\<close> holds exactly when the confidence is at
  least the configured threshold.
\<close>

theorem fused_confidence_weighted_mean:
  assumes d: "ScamDetector_detect orc config self message sender = (Inr r, self')"
    and sum1: "keyword_weight (scam_detection config) + pattern_weight (scam_detection config)
               + llm_weight (scam_detection config) = 1"
    and nonneg: "0 \<le> keyword_weight (scam_detection config)"
      "0 \<le> pattern_weight (scam_detection config)" "0 \<le> llm_weight (scam_detection config)"
    and scores: "\<forall>kv \<in> set (layer_scores r). 0 \<le> snd kv \<and> snd kv \<le> 1"
  shows "\<exists>ks ps ls.
           layer_scores r = [(''keyword'', ks), (''pattern'', ps), (''llm'', ls)]
           \<and> sd_confidence r
               = (keyword_weight (scam_detection config) * ks
                  + pattern_weight (scam_detection config) * ps
                  + llm_weight (scam_detection config) * ls)
                 / (keyword_weight (scam_detection config)
                    + pattern_weight (scam_detection config)
                    + llm_weight (scam_detection config))
           \<and> 0 \<le> sd_confidence r \<and> sd_confidence r \<le> 1
           \<and> is_scam r = (sd_confidence r \<ge> confidence_threshold (scam_detection config))"
proof -
  define kw where "kw = keyword_weight (scam_detection config)"
  define pw where "pw = pattern_weight (scam_detection config)"
  define lw where "lw = llm_weight (scam_detection config)"
  from detect_result_shape [OF d] obtain ks ps ls where
    ls: "layer_scores r = [(''keyword'', ks), (''pattern'', ps), (''llm'', ls)]"
    and c: "sd_confidence r
            = calculate_weighted_score (layer_scores r)
                [(''keyword'', kw), (''pattern'', pw), (''llm'', lw)]"
    and s: "is_scam r = (sd_confidence r \<ge> confidence_threshold (scam_detection config))"
    unfolding kw_def pw_def lw_def by blast
  have w1: "kw + pw + lw = 1" and w0: "0 \<le> kw" "0 \<le> pw" "0 \<le> lw"
    using sum1 nonneg by (simp_all add: kw_def pw_def lw_def)
  from scores ls have b: "0 \<le> ks" "ks \<le> 1" "0 \<le> ps" "ps \<le> 1" "0 \<le> ls" "ls \<le> 1"
    by simp_all
  have v: "sd_confidence r = kw * ks + pw * ps + lw * ls"
    using c ls w1 by (simp add: weighted_three mult.commute)
  have lo: "0 \<le> kw * ks + pw * ps + lw * ls"
    using w0 b by simp
  have "kw * ks \<le> kw" "pw * ps \<le> pw" "lw * ls \<le> lw"
    using w0 b by (simp_all add: mult_left_le)
  then have hi: "kw * ks + pw * ps + lw * ls \<le> 1" using w1 by linarith
  show ?thesis
    using ls v lo hi s w1 by (simp add: kw_def pw_def lw_def)
qed

theorem fused_confidence_weighted_mean_witness:
  "\<exists>r self'.
     ScamDetector_detect failing_oracle default_config (LLMInterface_init default_config)
       ''123456789'' (Some ''noreply@amazon.com'') = (Inr r, self')
     \<and> sd_confidence r = (3 / 10 * 0 + 3 / 10 * (3 / 10) + 4 / 10 * 0) / (3 / 10 + 3 / 10 + 4 / 10)
     \<and> 0 \<le> sd_confidence r \<and> sd_confidence r \<le> 1 \<and> \<not> is_scam r"
proof -
  let ?r = "\<lparr> is_scam = False, sd_confidence = 9 / 100, scam_type = NOT_SCAM,
            reasoning = ''Keywords: whitelisted_sender | Patterns: bank_accounts:1 | LLM: I'm not sure I understand. Can you explain more?'',
            layer_scores = [(''keyword'', 0), (''pattern'', 3 / 10), (''llm'', 0::real)] \<rparr>"
  have "\<exists>ks ps ls.
           layer_scores ?r = [(''keyword'', ks), (''pattern'', ps), (''llm'', ls)]
           \<and> sd_confidence ?r
               = (keyword_weight (scam_detection default_config) * ks
                  + pattern_weight (scam_detection default_config) * ps
                  + llm_weight (scam_detection default_config) * ls)
                 / (keyword_weight (scam_detection default_config)
                    + pattern_weight (scam_detection default_config)
                    + llm_weight (scam_detection default_config))
           \<and> 0 \<le> sd_confidence ?r \<and> sd_confidence ?r \<le> 1
           \<and> is_scam ?r
               = (sd_confidence ?r \<ge> confidence_threshold (scam_detection default_config))"
    by (rule fused_confidence_weighted_mean [OF detect_digits_whitelisted])
       (simp_all add: default_config_def)
  then have "sd_confidence ?r
        = (3 / 10 * 0 + 3 / 10 * (3 / 10) + 4 / 10 * 0) / (3 / 10 + 3 / 10 + 4 / 10)
     \<and> 0 \<le> sd_confidence ?r \<and> sd_confidence ?r \<le> 1 \<and> \<not> is_scam ?r"
    by (simp add: default_config_def)
  with detect_digits_whitelisted show ?thesis by blast
qed

subsection \<open>The keyword layer\<close>

text \<open>
  C6: for every message whose sender is not whitelisted and whose lower-cased text
  contains at least two urgency keywords and at least two money keywords or at least two
  threat keywords, the score of the keyword layer is exactly 0.8, whatever the total
  number of keywords.
\<close>

theorem urgency_override_score:
  assumes "\<not> whitelisted config sender"
    and "count_keywords URGENCY_KEYWORDS (lower message) \<ge> 2"
    and "count_keywords MONEY_KEYWORDS (lower message) \<ge> 2
         \<or> count_keywords THREAT_KEYWORDS (lower message) \<ge> 2"
  shows "kw_score (KeywordDetector_detect config message sender) = 0.8"
  using assms by (simp add: KeywordDetector_detect_def Let_def split: prod.splits)

theorem urgency_override_score_witness:
  "kw_score (KeywordDetector_detect default_config ''URGENT! Act now: transfer money'' None)
   = 0.8"
proof -
  have "\<not> whitelisted default_config None" by (simp add: whitelisted_def)
  moreover have "count_keywords URGENCY_KEYWORDS (lower ''URGENT! Act now: transfer money'') \<ge> 2"
    using urgent_counts by simp
  moreover have "count_keywords MONEY_KEYWORDS (lower ''URGENT! Act now: transfer money'') \<ge> 2
         \<or> count_keywords THREAT_KEYWORDS (lower ''URGENT! Act now: transfer money'') \<ge> 2"
    using urgent_counts by simp
  ultimately show ?thesis by (rule urgency_override_score)
qed

subsection \<open>Failure of the oracle\<close>

lemma fallback_text_at:
  assumes "fallback_index self < length fallback_responses"
  shows "fallback_responses ! fallback_index self \<noteq> []"
    and "\<not> contains ''scam'' (lower (fallback_responses ! fallback_index self))"
  using fallback_texts nth_mem [OF assms] by blast+

lemma generate_on_failure:
  assumes "detect_request_fails orc self message"
  shows "success (fst (generate orc config self SCAM_DETECTION_SYSTEM_PROMPT
           (''Analyze this message for scam indicators:'' @ [CHR 0x0A, CHR 0x0A] @ message)
           False)) = enable_fallback (llm config)"
    and "content (fst (generate orc config self SCAM_DETECTION_SYSTEM_PROMPT
           (''Analyze this message for scam indicators:'' @ [CHR 0x0A, CHR 0x0A] @ message)
           False))
         = (if enable_fallback (llm config) then fallback_responses ! fallback_index self
            else [])"
  using assms
  by (auto simp: generate_def detect_request_fails_def call_provider_def
        get_fallback_response_def Let_def
      split: sum.splits if_splits)

lemma detect_scam_on_failure:
  assumes "detect_request_fails orc self message"
    and "fallback_index self < length fallback_responses"
    and "json_loads orc (fallback_responses ! fallback_index self) = None"
  shows "fst (detect_scam orc config self message)
         = JObj [(''is_scam'', JBool False),
                 (''confidence'', JFloat (if enable_fallback (llm config) then 0.5 else 0.0)),
                 (''scam_type'', JStr ''unknown''),
                 (''reasoning'',
                  JStr (if enable_fallback (llm config)
                        then fallback_responses ! fallback_index self
                        else ''LLM analysis failed''))]"
proof -
  obtain resp self' where
    g: "generate orc config self SCAM_DETECTION_SYSTEM_PROMPT
          (''Analyze this message for scam indicators:'' @ [CHR 0x0A, CHR 0x0A] @ message)
          False = (resp, self')"
    by (cases "generate orc config self SCAM_DETECTION_SYSTEM_PROMPT
          (''Analyze this message for scam indicators:'' @ [CHR 0x0A, CHR 0x0A] @ message)
          False")
  from generate_on_failure [OF assms(1), of config] g
  have s: "success resp = enable_fallback (llm config)"
    and c: "content resp
            = (if enable_fallback (llm config) then fallback_responses ! fallback_index self
               else [])"
    by simp_all
  show ?thesis
    unfolding detect_scam_def Let_def g
    using s c assms(3) fallback_text_at(2) [OF assms(2)]
    by simp
qed

text \<open>
  A reply that reports no scam contributes 0.0 and lets the classifier return.
\<close>

lemma not_scam_reply_contributes_zero:
  assumes "detect_scam orc config self message = (JObj d, self')"
    and "\<not> truthy (dict_get d ''is_scam'' (JBool False))"
  shows "\<exists>r. ScamDetector_detect orc config self message sender = (Inr r, self')
             \<and> map_of (layer_scores r) ''llm'' = Some 0"
  using assms by (simp add: ScamDetector_detect_def Let_def as_number_JFloat)

text \<open>
  C7, at the failing requests: when the request of the language model fails, the
  classifier returns a result and the language model contributes 0.0, as claimed, but the
  reasoning notes the failure (\<open>LLM analysis failed\<close>) only when the fallback is disabled.
  With the fallback enabled, as it is by default, \<open>generate\<close> has replaced the failed
  response by the next canned reply of the victim persona and marked it a success, so
  \<open>detect_scam\<close> never takes its branch for a failure, and the reasoning quotes the canned
  reply as what the language model said.
\<close>

theorem oracle_failure_reasoning:
  assumes "detect_request_fails orc self message"
    and "fallback_index self < length fallback_responses"
    and "json_loads orc (fallback_responses ! fallback_index self) = None"
  shows "\<exists>r self' parts.
           ScamDetector_detect orc config self message sender = (Inr r, self')
           \<and> map_of (layer_scores r) ''llm'' = Some 0
           \<and> reasoning r
               = join '' | ''
                   (parts @ [''LLM: ''
                             @ (if enable_fallback (llm config)
                                then fallback_responses ! fallback_index self
                                else ''LLM analysis failed'')])"
proof -
  obtain j self' where j: "detect_scam orc config self message = (j, self')"
    by (cases "detect_scam orc config self message")
  with detect_scam_on_failure [OF assms, of config]
  have jv: "j = JObj [(''is_scam'', JBool False),
                 (''confidence'', JFloat (if enable_fallback (llm config) then 0.5 else 0.0)),
                 (''scam_type'', JStr ''unknown''),
                 (''reasoning'',
                  JStr (if enable_fallback (llm config)
                        then fallback_responses ! fallback_index self
                        else ''LLM analysis failed''))]"
    by simp
  define kparts where
    "kparts = (if kw_indicators (KeywordDetector_detect config message sender) \<noteq> []
               then [''Keywords: '' @ join '', ''
                       (kw_indicators (KeywordDetector_detect config message sender))]
               else [])
              @ (if pt_indicators (PatternDetector_detect message) \<noteq> []
                 then [''Patterns: '' @ join '', '' (pt_indicators (PatternDetector_detect message))]
                 else [])"
  have ne: "fallback_responses ! fallback_index self \<noteq> []"
    by (rule fallback_text_at(1) [OF assms(2)])
  show ?thesis
    apply (rule exI [where x = "projr (fst (ScamDetector_detect orc config self message sender))"])
    apply (rule exI [where x = self'])
    apply (rule exI [where x = kparts])
    using ne
    apply (simp add: ScamDetector_detect_def j jv Let_def truthy_def dict_get_def as_number_def
        py_str_def kparts_def)
    done
qed

theorem oracle_failure_reasoning_witness:
  "\<exists>r self' parts.
     ScamDetector_detect failing_oracle default_config (LLMInterface_init default_config)
       ''hello'' None = (Inr r, self')
     \<and> map_of (layer_scores r) ''llm'' = Some 0
     \<and> reasoning r
         = join '' | '' (parts @ [''LLM: I'm not sure I understand. Can you explain more?''])"
proof -
  have 1: "detect_request_fails failing_oracle (LLMInterface_init default_config) ''hello''"
    by (simp add: detect_request_fails_def failing_oracle_def LLMInterface_init_def
        default_config_def)
  have 2: "fallback_index (LLMInterface_init default_config) < length fallback_responses"
    by (simp add: LLMInterface_init_def fallback_responses_def)
  have 3: "json_loads failing_oracle
             (fallback_responses ! fallback_index (LLMInterface_init default_config)) = None"
    by (simp add: failing_oracle_def)
  from oracle_failure_reasoning [OF 1 2 3, of default_config None]
  show ?thesis
    by (simp add: default_config_def LLMInterface_init_def fallback_responses_def)
qed

section \<open>The extractor\<close>

subsection \<open>The running list has each key once\<close>

lemma is_duplicate_iff: "is_duplicate ex e = (entity_key e \<in> set (map entity_key ex))"
proof
  assume "is_duplicate ex e"
  then obtain x where x: "x \<in> set ex" "entity_type x = entity_type e"
      "normalized_value x = normalized_value e"
    unfolding is_duplicate_def by blast
  then have "entity_key e = entity_key x" by (simp add: entity_key_def)
  with x(1) show "entity_key e \<in> set (map entity_key ex)" by simp
next
  assume "entity_key e \<in> set (map entity_key ex)"
  then obtain x where x: "x \<in> set ex" "entity_key e = entity_key x" by auto
  then have "entity_type x = entity_type e \<and> normalized_value x = normalized_value e"
    by (simp add: entity_key_def)
  with x(1) show "is_duplicate ex e" unfolding is_duplicate_def by blast
qed

lemma add_entities_distinct:
  "distinct (map entity_key ex) \<Longrightarrow> distinct (map entity_key (add_entities es ex))"
  by (induction es arbitrary: ex) (auto simp: is_duplicate_iff)

lemma add_entities_keys:
  "set (map entity_key (add_entities es ex)) = set (map entity_key ex) \<union> set (map entity_key es)"
  by (induction es arbitrary: ex) (auto simp: is_duplicate_iff)

lemma distinct_pair_count:
  "distinct (map entity_key ex) \<Longrightarrow> entity_key e \<in> set (map entity_key ex) \<Longrightarrow> pair_count ex e = 1"
proof (induction ex)
  case Nil
  then show ?case by simp
next
  case (Cons x xs)
  show ?case
  proof (cases "entity_key x = entity_key e")
    case True
    from Cons.prems(1) have "entity_key x \<notin> set (map entity_key xs)" by simp
    with True have "\<forall>y \<in> set xs. entity_key y \<noteq> entity_key e"
      by (metis image_eqI set_map)
    then have "filter (\<lambda>y. entity_key y = entity_key e) xs = []"
      by (simp add: filter_empty_conv)
    with True show ?thesis by (simp add: pair_count_def)
  next
    case False
    with Cons show ?thesis by (auto simp: pair_count_def)
  qed
qed

lemma session_distinct: "distinct (map entity_key (session config calls))"
  by (induction calls)
     (auto simp: EntityExtractor_extract_def Let_def add_entities_distinct split: prod.splits)

lemma pair_count_present: "e \<in> set es \<Longrightarrow> pair_count es e \<ge> 1"
proof -
  assume "e \<in> set es"
  then have "filter (\<lambda>x. entity_key x = entity_key e) es \<noteq> []"
    by (auto simp: filter_empty_conv)
  then show ?thesis
    by (cases "filter (\<lambda>x. entity_key x = entity_key e) es") (auto simp: pair_count_def)
qed

text \<open>
  C5: in every session, after two calls of \<open>extract\<close> (the same message twice, or any two
  messages), every entity that the first call returned has exactly one entry under its
  key in the running list after that call, and every entity that either call returned
  has exactly one after both, however often the calls matched it; the list a call
  returns does not depend on the running list, so it reports a match that is already
  there; and an identifier matched in both calls has at least two entries in the two
  returned lists together.
\<close>

theorem extract_dedup:
  "let ex0 = session config calls;
       (r1, ex1) = EntityExtractor_extract config net_a message_a role_a ex0;
       (r2, ex2) = EntityExtractor_extract config net_b message_b role_b ex1
   in (\<forall>e \<in> set r1. pair_count ex1 e = 1)
      \<and> (\<forall>e \<in> set r1 \<union> set r2. pair_count ex2 e = 1)
      \<and> r2 = fst (EntityExtractor_extract config net_b message_b role_b [])
      \<and> (\<forall>e1 \<in> set r1. \<forall>e2 \<in> set r2.
            entity_key e1 = entity_key e2 \<longrightarrow> pair_count (r1 @ r2) e1 \<ge> 2)"
proof -
  define ex0 where "ex0 = session config calls"
  define r1 where "r1 = matched_entities config net_a message_a role_a"
  define ex1 where "ex1 = add_entities r1 ex0"
  define r2 where "r2 = matched_entities config net_b message_b role_b"
  define ex2 where "ex2 = add_entities r2 ex1"
  have d0: "distinct (map entity_key ex0)" by (simp add: ex0_def session_distinct)
  have d1: "distinct (map entity_key ex1)" by (simp add: ex1_def d0 add_entities_distinct)
  have d2: "distinct (map entity_key ex2)" by (simp add: ex2_def d1 add_entities_distinct)
  have k1: "set (map entity_key ex1) = set (map entity_key ex0) \<union> set (map entity_key r1)"
    unfolding ex1_def by (rule add_entities_keys)
  have k2: "set (map entity_key ex2) = set (map entity_key ex1) \<union> set (map entity_key r2)"
    unfolding ex2_def by (rule add_entities_keys)
  have a: "\<forall>e \<in> set r1. pair_count ex1 e = 1"
  proof
    fix e assume "e \<in> set r1"
    then have "entity_key e \<in> set (map entity_key ex1)" unfolding k1 by simp
    with d1 show "pair_count ex1 e = 1" by (rule distinct_pair_count)
  qed
  have b: "\<forall>e \<in> set r1 \<union> set r2. pair_count ex2 e = 1"
  proof
    fix e assume "e \<in> set r1 \<union> set r2"
    then have "entity_key e \<in> set (map entity_key ex2)" unfolding k2 k1 by auto
    with d2 show "pair_count ex2 e = 1" by (rule distinct_pair_count)
  qed
  have c: "\<forall>e1 \<in> set r1. \<forall>e2 \<in> set r2.
            entity_key e1 = entity_key e2 \<longrightarrow> pair_count (r1 @ r2) e1 \<ge> 2"
  proof (intro ballI impI)
    fix e1 e2 assume h: "e1 \<in> set r1" "e2 \<in> set r2" "entity_key e1 = entity_key e2"
    from h(1) have 1: "pair_count r1 e1 \<ge> 1" by (rule pair_count_present)
    from h(2) have "pair_count r2 e2 \<ge> 1" by (rule pair_count_present)
    with h(3) have 2: "pair_count r2 e1 \<ge> 1" by (simp add: pair_count_def)
    from 1 2 show "pair_count (r1 @ r2) e1 \<ge> 2" by (simp add: pair_count_def)
  qed
  show ?thesis
    using a b c
    by (simp add: EntityExtractor_extract_def Let_def ex0_def r1_def ex1_def r2_def ex2_def)
qed

theorem extract_dedup_witness:
  "let ex0 = session default_config [];
       (r1, ex1) = EntityExtractor_extract default_config offline ''abc@ybl'' ''scammer'' ex0;
       (r2, ex2) = EntityExtractor_extract default_config offline ''abc@ybl'' ''scammer'' ex1
   in r1 = [plain_entity UPI_ID ''abc@ybl'' MEDIUM]
      \<and> r2 = [plain_entity UPI_ID ''abc@ybl'' MEDIUM]
      \<and> pair_count ex1 (plain_entity UPI_ID ''abc@ybl'' MEDIUM) = 1
      \<and> pair_count ex2 (plain_entity UPI_ID ''abc@ybl'' MEDIUM) = 1
      \<and> pair_count (r1 @ r2) (plain_entity UPI_ID ''abc@ybl'' MEDIUM) \<ge> 2"
  using extract_dedup [where config = default_config and calls = "[]" and net_a = offline
      and message_a = "''abc@ybl''" and role_a = "''scammer''" and net_b = offline
      and message_b = "''abc@ybl''" and role_b = "''scammer''"]
  by (simp add: EntityExtractor_extract_def Let_def matched_abc_scammer)

subsection \<open>Confidence of what the victim says\<close>

text \<open>
  C8: with the role \<open>victim\<close>, \<open>_assess_confidence\<close> returns \<open>LOW\<close> for every value, entity
  type and message, and so every entity that \<open>extract\<close> returns for that role has the
  confidence \<open>LOW\<close>.
\<close>

theorem victim_confidence_low:
  "assess_confidence value etype message ''victim'' = LOW
   \<and> (\<forall>e \<in> set (fst (EntityExtractor_extract config net message ''victim'' ex)).
         confidence e = LOW)"
  by (auto simp: EntityExtractor_extract_def matched_entities_def entity_of_match_def
        assess_confidence_def Let_def split: if_splits)

theorem victim_confidence_low_witness:
  "fst (EntityExtractor_extract default_config offline ''abc@ybl'' ''victim'' [])
     = [plain_entity UPI_ID ''abc@ybl'' LOW]
   \<and> confidence (plain_entity UPI_ID ''abc@ybl'' LOW) = LOW"
proof -
  have m: "fst (EntityExtractor_extract default_config offline ''abc@ybl'' ''victim'' [])
     = [plain_entity UPI_ID ''abc@ybl'' LOW]"
    by (simp add: EntityExtractor_extract_def Let_def matched_abc_victim)
  then have "plain_entity UPI_ID ''abc@ybl'' LOW
      \<in> set (fst (EntityExtractor_extract default_config offline ''abc@ybl'' ''victim'' []))"
    by simp
  with victim_confidence_low [where config = default_config and net = offline
      and message = "''abc@ybl''" and ex = "[]"]
  have "confidence (plain_entity UPI_ID ''abc@ybl'' LOW) = LOW" by blast
  with m show ?thesis by blast
qed

subsection \<open>Repeats in the list a call returns\<close>

text \<open>
  C10 (as stated): the example fails. A number of ten digits is not matched by the first
  phone pattern, which needs eleven digits at least (one to three, then three, three and
  four); the call returns one bank account and one phone number for it, and no key
  twice.
\<close>

theorem ten_digit_number_no_repeated_pair:
  "map entity_key
     (fst (EntityExtractor_extract default_config offline ''9876543210'' ''scammer'' []))
   = [(BANK_ACCOUNT, ''9876543210''), (PHONE_NUMBER, ''9876543210'')]
   \<and> distinct (map entity_key
       (fst (EntityExtractor_extract default_config offline ''9876543210'' ''scammer'' [])))"
  by (simp add: EntityExtractor_extract_def Let_def matched_ten_digits entity_key_def
      plain_entity_def)

text \<open>
  C10 (amended): the list a call returns is the list of all matches, whatever the running
  list holds. For the number \<open>19876543210\<close> of eleven digits, which both phone patterns
  match in full, a single call returns the key (phone number, 19876543210) twice, while
  the running list gains it once; and a running list with each key once has each key
  once after any call.
\<close>

theorem per_call_list_keeps_repeats:
  "fst (EntityExtractor_extract config net message role ex)
     = matched_entities config net message role
   \<and> map entity_key
       (fst (EntityExtractor_extract default_config offline ''19876543210'' ''scammer'' []))
     = [(BANK_ACCOUNT, ''19876543210''), (PHONE_NUMBER, ''19876543210''),
        (PHONE_NUMBER, ''19876543210'')]
   \<and> map entity_key
       (snd (EntityExtractor_extract default_config offline ''19876543210'' ''scammer'' []))
     = [(BANK_ACCOUNT, ''19876543210''), (PHONE_NUMBER, ''19876543210'')]
   \<and> (distinct (map entity_key ex)
        \<longrightarrow> distinct (map entity_key
                       (snd (EntityExtractor_extract config net message role ex))))"
proof (intro conjI impI)
  show "fst (EntityExtractor_extract config net message role ex)
          = matched_entities config net message role"
    by (simp add: EntityExtractor_extract_def Let_def)
  show "map entity_key
          (fst (EntityExtractor_extract default_config offline ''19876543210'' ''scammer'' []))
        = [(BANK_ACCOUNT, ''19876543210''), (PHONE_NUMBER, ''19876543210''),
           (PHONE_NUMBER, ''19876543210'')]"
    by (simp add: EntityExtractor_extract_def Let_def matched_eleven_digits entity_key_def
        plain_entity_def)
  show "map entity_key
          (snd (EntityExtractor_extract default_config offline ''19876543210'' ''scammer'' []))
        = [(BANK_ACCOUNT, ''19876543210''), (PHONE_NUMBER, ''19876543210'')]"
    by (simp add: EntityExtractor_extract_def Let_def matched_eleven_digits entity_key_def
        plain_entity_def is_duplicate_def)
  assume "distinct (map entity_key ex)"
  then show "distinct (map entity_key
                 (snd (EntityExtractor_extract config net message role ex)))"
    by (simp add: EntityExtractor_extract_def Let_def add_entities_distinct)
qed

theorem per_call_list_keeps_repeats_witness:
  "distinct (map entity_key
     (snd (EntityExtractor_extract default_config offline ''19876543210'' ''scammer'' [])))
   \<and> \<not> distinct (map entity_key
     (fst (EntityExtractor_extract default_config offline ''19876543210'' ''scammer'' [])))"
proof -
  note t = per_call_list_keeps_repeats [where config = default_config and net = offline
      and message = "''19876543210''" and role = "''scammer''" and ex = "[]"]
  from t have "distinct (map entity_key
     (snd (EntityExtractor_extract default_config offline ''19876543210'' ''scammer'' [])))"
    by simp
  moreover from t have "map entity_key
       (fst (EntityExtractor_extract default_config offline ''19876543210'' ''scammer'' []))
     = [(BANK_ACCOUNT, ''19876543210''), (PHONE_NUMBER, ''19876543210''),
        (PHONE_NUMBER, ''19876543210'')]"
    by blast
  then have "\<not> distinct (map entity_key
     (fst (EntityExtractor_extract default_config offline ''19876543210'' ''scammer'' [])))"
    by simp
  ultimately show ?thesis by blast
qed

section \<open>The strategy engine\<close>

subsection \<open>The message count\<close>

lemma analyze_keeps_count:
  "message_count (snd (analyze_scammer_message message state)) = message_count state"
  by (simp add: analyze_scammer_message_def Let_def)

lemma guidance_keeps_count:
  "message_count (snd (get_strategy_guidance config extractor state)) = message_count state"
  by (simp add: get_strategy_guidance_def Let_def split: option.splits)

lemma adaptive_keeps_count:
  "message_count (snd (get_adaptive_prompt_addition message state)) = message_count state"
proof -
  have "snd (get_adaptive_prompt_addition message state)
        = snd (analyze_scammer_message message state)"
    by (simp add: get_adaptive_prompt_addition_def split: prod.splits)
  then show ?thesis by (simp add: analyze_keeps_count)
qed

lemma run_op_count:
  "message_count (run_op config op state)
   = (if is_increment op then message_count state + 1 else message_count state)"
  by (cases op)
     (simp_all add: analyze_keeps_count guidance_keeps_count adaptive_keeps_count
        increment_message_count_def)

lemma run_ops_count:
  "message_count (run_ops config ops state)
   = message_count state + int (length (filter is_increment ops))"
  by (induction ops arbitrary: state) (simp_all add: run_op_count)

text \<open>
  C9: of the operations of the strategy engine only \<open>increment_message_count\<close> changes the
  message count, and it adds exactly 1; so after any sequence of operations the count is
  the count before plus the number of increments in the sequence, and never below the
  count before.
\<close>

theorem message_count_monotone:
  "message_count (run_op config op state)
     = (if is_increment op then message_count state + 1 else message_count state)
   \<and> message_count (run_ops config ops state)
     = message_count state + int (length (filter is_increment ops))
   \<and> message_count state \<le> message_count (run_ops config ops state)"
  by (simp add: run_op_count run_ops_count)

theorem message_count_monotone_witness:
  "message_count
     (run_ops default_config
        [AnalyzeMessage ''hi'', ShouldStop [] 0, StrategyGuidance [],
         AdaptivePromptAddition ''hi'', IncrementMessageCount, GetStateSummary [] 0,
         DeterminePhase [], IncrementMessageCount]
        (state_with_count 0)) = 2"
  using message_count_monotone [where config = default_config and state = "state_with_count 0"
      and ops = "[AnalyzeMessage ''hi'', ShouldStop [] 0, StrategyGuidance [],
         AdaptivePromptAddition ''hi'', IncrementMessageCount, GetStateSummary [] 0,
         DeterminePhase [], IncrementMessageCount]"]
  by (simp add: state_with_count_def)

subsection \<open>Phase determination and stop conditions\<close>

text \<open>
  C2 (as stated): a message count of 2 gives \<open>BUILD_TRUST\<close>, and a message count of 5 with
  one high-value entity and \<open>max_messages = 15\<close> gives \<open>DELAY_PROBE\<close>. The second half
  fails: the code returns \<open>EXTRACT_INTEL\<close> there.
\<close>

theorem determine_phase_five_one_not_delay_probe:
  "determine_phase default_config [sample_entity ''a@ybl''] (state_with_count 5) \<noteq> DELAY_PROBE"
  by (simp add: determine_phase_def default_config_def state_with_count_def sample_entity_def
      get_entity_count_def get_high_value_entities_def)

text \<open>
  C2 (amended): a message count below 3 gives \<open>BUILD_TRUST\<close>, in particular 2 does; from 3
  on, a message count below 8 with fewer than two high-value entities gives
  \<open>EXTRACT_INTEL\<close>, so a count of 5 with one entity does: the \<open>EXTRACT_INTEL\<close> branch comes
  before the branch for \<open>entity_count \<ge> 1\<close>. With two entities, a count of 5 and
  \<open>max_messages = 15\<close> the phase is \<open>DELAY_PROBE\<close>.
\<close>

theorem determine_phase_branch_order:
  "determine_phase config extractor (state\<lparr>message_count := 2\<rparr>) = BUILD_TRUST
   \<and> determine_phase default_config [sample_entity ''a@ybl''] (state_with_count 5) = EXTRACT_INTEL
   \<and> determine_phase default_config [sample_entity ''a@ybl'', sample_entity ''b@ybl'']
        (state_with_count 5) = DELAY_PROBE
   \<and> (3 \<le> message_count state \<and> message_count state < 8 \<and> get_entity_count extractor < 2
        \<longrightarrow> determine_phase config extractor state = EXTRACT_INTEL)"
  by (simp add: determine_phase_def default_config_def state_with_count_def sample_entity_def
      get_entity_count_def get_high_value_entities_def)

theorem determine_phase_branch_order_witness:
  "determine_phase default_config [sample_entity ''a@ybl''] (state_with_count 7) = EXTRACT_INTEL"
proof -
  have "3 \<le> message_count (state_with_count 7) \<and> message_count (state_with_count 7) < 8
        \<and> get_entity_count [sample_entity ''a@ybl''] < 2"
    by (simp add: state_with_count_def sample_entity_def get_entity_count_def
        get_high_value_entities_def)
  with determine_phase_branch_order
    [where config = default_config and extractor = "[sample_entity ''a@ybl'']"
       and state = "state_with_count 7"]
  show ?thesis by blast
qed

text \<open>
  C3: \<open>should_stop\<close> returns the reason of the first condition that holds in the order
  \<open>MAX_MESSAGES\<close>, \<open>TIME_LIMIT\<close>, \<open>ENTITIES_EXTRACTED\<close>, \<open>SCAMMER_SUSPICIOUS\<close>, \<open>UNPRODUCTIVE\<close>,
  and nothing when none holds; when the message count has reached the maximum and the
  high-value entity count has reached the minimum, the reason is \<open>MAX_MESSAGES\<close>.
\<close>

theorem should_stop_priority:
  "should_stop config extractor now state
     = first_true (stop_conditions config extractor now state)
   \<and> (message_count state \<ge> max_messages (engagement config)
        \<and> get_entity_count extractor \<ge> min_entities_for_stop (engagement config)
      \<longrightarrow> should_stop config extractor now state = (True, Some MAX_MESSAGES))"
  by (simp add: should_stop_def stop_conditions_def Let_def)

theorem should_stop_priority_witness:
  "should_stop default_config
     [sample_entity ''a@ybl'', sample_entity ''b@ybl'', sample_entity ''c@ybl'']
     0 (state_with_count 15) = (True, Some MAX_MESSAGES)"
proof -
  have "message_count (state_with_count 15) \<ge> max_messages (engagement default_config)
        \<and> get_entity_count
            [sample_entity ''a@ybl'', sample_entity ''b@ybl'', sample_entity ''c@ybl'']
          \<ge> min_entities_for_stop (engagement default_config)"
    by (simp add: state_with_count_def default_config_def sample_entity_def
        get_entity_count_def get_high_value_entities_def)
  with should_stop_priority
    [of default_config
        "[sample_entity ''a@ybl'', sample_entity ''b@ybl'', sample_entity ''c@ybl'']"
        0 "state_with_count 15"]
  show ?thesis by blast
qed

end
